theory Spec2Isabelle
  imports Main "HOL-Library.AList"
begin

section \<open>Operating hours of the contact page (js/contact-manager.js)\<close>

text \<open>
  The theory embeds the operating-hours logic of the class \<open>ContactManager\<close>:
  \<open>checkCurrentStatus\<close> (the status evaluation, called once after the fetch and then
  every minute), \<open>timeStringToNumber\<close> with the built-ins it calls (\<open>String.split\<close>,
  \<open>parseInt\<close>), and the part of \<open>createHoursCard\<close> that builds the lines of a card and
  chooses its status badge.

  Conventions of the embedding.
  \<^item> A JavaScript object is an association list of its own properties, in property order
    and with pairwise distinct keys.  A read of an own property is \<open>map_of\<close>.  The objects of
    the schedule are read under the weekday names, \<open>default\<close>, \<open>open\<close>, \<open>close\<close> and
    \<open>emergency\<close> only, which \<open>Object.prototype\<close> does not have, so that these reads are reads
    of own properties.  The read \<open>this.currentStatus[unit]\<close> of \<open>createHoursCard\<close> is under
    an arbitrary key and is modelled with the prototype chain (\<open>getStatus\<close> below).
  \<^item> The write \<open>this.currentStatus[unit] = \<dots>\<close> is \<open>AList.update\<close>: the value is replaced in
    place when the key exists, the key is appended otherwise.  This is the assignment of
    JavaScript for every key except \<open>__proto__\<close>, under which the assignment of a string
    stores nothing; the statements below that assert an entry of \<open>currentStatus\<close> are made
    for keys other than \<open>__proto__\<close>.  The order of the list is the property order of
    JavaScript for keys that are not canonical array indices, and for every key on a new
    manager filled in the order of \<open>Object.entries\<close>.
  \<^item> The fetched schedule has the shape of the data model: a unit's value is an object
    whose entries under the weekday names and under \<open>default\<close> are objects with optional
    string fields \<open>open\<close> and \<open>close\<close>, and whose entry \<open>emergency\<close> is an optional string.
    The record \<open>unit_schedule\<close> keeps the day entries (\<open>days\<close>, with \<open>default\<close> among them)
    apart from \<open>emergency\<close>.  A missing, \<open>undefined\<close> or \<open>null\<close> field is \<open>None\<close>.  On values
    of this shape no statement of the embedded methods throws, so the embedded methods are
    total functions without an error branch.
  \<^item> Strings are ASCII strings: \<open>parseInt\<close> skips the six ASCII blanks, where JavaScript
    also skips the white space beyond ASCII.  A statement about \<open>parseInt\<close> on strings
    that are not well-formed times assumes that their characters are ASCII.
  \<^item> A JavaScript number is \<open>Some\<close> of an integer, or \<open>None\<close> for \<open>NaN\<close>.  The embedding
    is exact as long as the integers stay below \<open>2^53\<close>, where JavaScript rounds; that
    is so for every time string of at most 13 characters, and a statement about the
    numbers of other strings than well-formed times assumes that length.
  \<^item> The clock (\<open>new Date()\<close>) is an argument.
\<close>

subsection \<open>Data\<close>

datatype weekday = Monday | Tuesday | Wednesday | Thursday | Friday | Saturday | Sunday

text \<open>\<open>now.toLocaleDateString('en-US', { weekday: 'long' })\<close>\<close>

fun weekdayName :: "weekday \<Rightarrow> string" where
  "weekdayName Monday = ''Monday''"
| "weekdayName Tuesday = ''Tuesday''"
| "weekdayName Wednesday = ''Wednesday''"
| "weekdayName Thursday = ''Thursday''"
| "weekdayName Friday = ''Friday''"
| "weekdayName Saturday = ''Saturday''"
| "weekdayName Sunday = ''Sunday''"

text \<open>What the code reads of a \<open>Date\<close>: the weekday, \<open>getHours()\<close> and \<open>getMinutes()\<close>.\<close>

record date =
  dayOfWeek :: weekday
  getHours :: nat
  getMinutes :: nat

record day_window =
  "open" :: "string option"
  close :: "string option"

record unit_schedule =
  days :: "(string \<times> day_window) list"
  emergency :: "string option"

type_synonym weekly_schedule = "(string \<times> unit_schedule) list"

text \<open>The two strings stored in \<open>currentStatus\<close>: \<open>'open'\<close> and \<open>'closed'\<close>.\<close>

datatype unit_status = Open | Closed

type_synonym status_map = "(string \<times> unit_status) list"

record contact_manager =
  hoursData :: "weekly_schedule option"
  currentStatus :: status_map

text \<open>The constructor: \<open>this.hoursData = null; this.currentStatus = {}\<close>.\<close>

definition constructor :: contact_manager where
  "constructor = \<lparr>hoursData = None, currentStatus = []\<rparr>"

subsection \<open>JavaScript built-ins\<close>

type_synonym number = "int option"

definition NaN :: number where
  "NaN = None"

definition js_mul :: "number \<Rightarrow> number \<Rightarrow> number" where
  "js_mul a b = (case a of None \<Rightarrow> None | Some x \<Rightarrow> (case b of None \<Rightarrow> None | Some y \<Rightarrow> Some (x * y)))"

definition js_add :: "number \<Rightarrow> number \<Rightarrow> number" where
  "js_add a b = (case a of None \<Rightarrow> None | Some x \<Rightarrow> (case b of None \<Rightarrow> None | Some y \<Rightarrow> Some (x + y)))"

text \<open>\<open>a >= b\<close> and \<open>a < b\<close> on numbers: false as soon as one side is \<open>NaN\<close>.\<close>

definition js_ge :: "number \<Rightarrow> number \<Rightarrow> bool" where
  "js_ge a b = (case a of None \<Rightarrow> False | Some x \<Rightarrow> (case b of None \<Rightarrow> False | Some y \<Rightarrow> y \<le> x))"

definition js_lt :: "number \<Rightarrow> number \<Rightarrow> bool" where
  "js_lt a b = (case a of None \<Rightarrow> False | Some x \<Rightarrow> (case b of None \<Rightarrow> False | Some y \<Rightarrow> x < y))"

definition js_le :: "number \<Rightarrow> number \<Rightarrow> bool" where
  "js_le a b = (case a of None \<Rightarrow> False | Some x \<Rightarrow> (case b of None \<Rightarrow> False | Some y \<Rightarrow> x \<le> y))"

text \<open>Truthiness of an optional string: \<open>undefined\<close>, \<open>null\<close> and \<open>''\<close> are falsy.\<close>

definition truthy :: "string option \<Rightarrow> bool" where
  "truthy v = (case v of None \<Rightarrow> False | Some s \<Rightarrow> s \<noteq> [])"

text \<open>\<open>a || b\<close> where \<open>a\<close> and \<open>b\<close> are objects or \<open>undefined\<close>: an object is truthy.\<close>

definition js_or :: "'a option \<Rightarrow> 'a option \<Rightarrow> 'a option" where
  "js_or a b = (case a of Some x \<Rightarrow> Some x | None \<Rightarrow> b)"

text \<open>\<open>s.split(c)\<close> for a separator of one character: the pieces between the separators.\<close>

function split :: "char \<Rightarrow> string \<Rightarrow> string list" where
  "split c s =
     (case dropWhile (\<lambda>x. x \<noteq> c) s of
        [] \<Rightarrow> [takeWhile (\<lambda>x. x \<noteq> c) s]
      | _ # r \<Rightarrow> takeWhile (\<lambda>x. x \<noteq> c) s # split c r)"
  by pat_completeness auto
termination
proof (relation "measure (\<lambda>(c, s). length s)")
  show "wf (measure (\<lambda>(c, s). length s))" by simp
next
  fix c :: char and s :: string and x r
  assume "dropWhile (\<lambda>x. x \<noteq> c) s = x # r"
  then have "length (dropWhile (\<lambda>x. x \<noteq> c) s) = Suc (length r)" by simp
  moreover have "length (dropWhile (\<lambda>x. x \<noteq> c) s) \<le> length s"
    by (rule length_dropWhile_le)
  ultimately show "((c, r), (c, s)) \<in> measure (\<lambda>(c, s). length s)" by simp
qed

declare split.simps [simp del]

text \<open>The white space that \<open>parseInt\<close> skips: TAB, LF, VT, FF, CR and the space.\<close>

definition isWhiteSpace :: "char \<Rightarrow> bool" where
  "isWhiteSpace c = (of_char c \<in> {9::nat, 10, 11, 12, 13, 32})"

text \<open>The value of a character as a digit: \<open>0-9\<close>, then \<open>a-z\<close> or \<open>A-Z\<close> from ten on.\<close>

definition digitVal :: "char \<Rightarrow> nat option" where
  "digitVal c =
     (let n = (of_char c :: nat) in
      if 48 \<le> n \<and> n \<le> 57 then Some (n - 48)
      else if 97 \<le> n \<and> n \<le> 122 then Some (n - 87)
      else if 65 \<le> n \<and> n \<le> 90 then Some (n - 55)
      else None)"

definition isDigit :: "nat \<Rightarrow> char \<Rightarrow> bool" where
  "isDigit R c = (case digitVal c of None \<Rightarrow> False | Some d \<Rightarrow> d < R)"

text \<open>The mathematical value of a string of digits in radix \<open>R\<close>.\<close>

definition digitsValue :: "nat \<Rightarrow> string \<Rightarrow> nat" where
  "digitsValue R ds = foldl (\<lambda>acc c. acc * R + (case digitVal c of None \<Rightarrow> 0 | Some d \<Rightarrow> d)) 0 ds"

text \<open>
  \<open>parseInt(s)\<close> without a radix: skip leading white space, read a sign, read the prefix
  \<open>0x\<close> or \<open>0X\<close> (then the radix is 16, otherwise 10), and take the longest run of digits
  of the radix; the rest of the string is ignored.  No digit: \<open>NaN\<close>.
\<close>

definition parseInt :: "string \<Rightarrow> number" where
  "parseInt inputString =
     (let s1 = dropWhile isWhiteSpace inputString;
          sign = (if take 1 s1 = ''-'' then - 1 else (1::int));
          s2 = (if take 1 s1 = ''-'' \<or> take 1 s1 = ''+'' then drop 1 s1 else s1);
          stripPrefix = (take 2 s2 = ''0x'' \<or> take 2 s2 = ''0X'');
          R = (if stripPrefix then 16 else (10::nat));
          s3 = (if stripPrefix then drop 2 s2 else s2);
          z = takeWhile (isDigit R) s3
      in if z = [] then NaN else Some (sign * int (digitsValue R z)))"

subsection \<open>The methods of ContactManager\<close>

text \<open>
  \<open>timeStringToNumber(timeStr)\<close>.  The destructuring \<open>[hours, minutes]\<close> takes the first
  two pieces; without a second piece \<open>minutes\<close> is \<open>undefined\<close> and
  \<open>parseInt(undefined)\<close> is \<open>NaN\<close>.
\<close>

definition timeStringToNumber :: "string option \<Rightarrow> number" where
  "timeStringToNumber timeStr =
     (case timeStr of
        None \<Rightarrow> Some 0
      | Some s \<Rightarrow>
          if s = [] then Some 0
          else (case split CHR '':'' s of
                  hours # minutes # _ \<Rightarrow> js_add (js_mul (parseInt hours) (Some 100)) (parseInt minutes)
                | [hours] \<Rightarrow> js_add (js_mul (parseInt hours) (Some 100)) NaN
                | [] \<Rightarrow> NaN))"

text \<open>\<open>const dayHours = hours[dayOfWeek] || hours['default']\<close>\<close>

definition dayHours :: "string \<Rightarrow> unit_schedule \<Rightarrow> day_window option" where
  "dayHours dayName hours = js_or (map_of (days hours) dayName) (map_of (days hours) ''default'')"

text \<open>
  \<open>const isOpen = currentTime >= openTime && currentTime < closeTime\<close>, with \<open>openTime\<close>
  and \<open>closeTime\<close> the numbers of \<open>dayHours.open\<close> and \<open>dayHours.close\<close>.
\<close>

definition isOpen :: "number \<Rightarrow> day_window \<Rightarrow> bool" where
  "isOpen currentTime w =
     (let openTime = timeStringToNumber (open w);
          closeTime = timeStringToNumber (close w)
      in js_ge currentTime openTime \<and> js_lt currentTime closeTime)"

text \<open>
  The callback of \<open>Object.entries(this.hoursData).forEach\<close> in \<open>checkCurrentStatus\<close>, as a
  transformer of \<open>this.currentStatus\<close>.  The guard is
  \<open>dayHours && dayHours.open && dayHours.close\<close>; without it nothing is assigned.  The
  assignment \<open>this.currentStatus[unit] = isOpen ? 'open' : 'closed'\<close> is \<open>AList.update\<close>, which
  is what the code does under every key but \<open>__proto__\<close> (see the conventions).
\<close>

definition statusCallback :: "string \<Rightarrow> number \<Rightarrow> string \<times> unit_schedule \<Rightarrow> status_map \<Rightarrow> status_map" where
  "statusCallback dayName currentTime entry cs =
     (case entry of (unit, hours) \<Rightarrow>
        (case dayHours dayName hours of
           None \<Rightarrow> cs
         | Some w \<Rightarrow>
             if truthy (open w) \<and> truthy (close w)
             then AList.update unit (if isOpen currentTime w then Open else Closed) cs
             else cs))"

text \<open>
  \<open>checkCurrentStatus()\<close>: nothing happens without \<open>hoursData\<close>; \<open>currentTime\<close> is
  \<open>now.getHours() * 100 + now.getMinutes()\<close>.  The update of the page that follows the
  loop reads \<open>currentStatus\<close> and changes only the document.
\<close>

definition checkCurrentStatus :: "contact_manager \<Rightarrow> date \<Rightarrow> contact_manager" where
  "checkCurrentStatus this now =
     (case hoursData this of
        None \<Rightarrow> this
      | Some entries \<Rightarrow>
          (let currentTime = Some (int (getHours now * 100 + getMinutes now));
               dayName = weekdayName (dayOfWeek now)
           in this\<lparr>currentStatus := fold (statusCallback dayName currentTime) entries (currentStatus this)\<rparr>))"

text \<open>
  The read \<open>this.currentStatus[unit]\<close>.  \<open>currentStatus\<close> is an ordinary object: a key
  that is not an own property is looked up in \<open>Object.prototype\<close>, whose properties in a
  browser are the twelve names below.  What is found there is a function, or the
  prototype object itself under \<open>__proto__\<close>: a truthy value that is not a status string.
  Under any other key the read gives \<open>undefined\<close> (\<open>None\<close>).
\<close>

datatype property_value = StatusString unit_status | InheritedMember

definition objectPrototypeProperties :: "string list" where
  "objectPrototypeProperties =
     [''constructor'', ''__defineGetter__'', ''__defineSetter__'', ''hasOwnProperty'',
      ''__lookupGetter__'', ''__lookupSetter__'', ''isPrototypeOf'', ''propertyIsEnumerable'',
      ''toString'', ''valueOf'', ''__proto__'', ''toLocaleString'']"

definition getStatus :: "status_map \<Rightarrow> string \<Rightarrow> property_value option" where
  "getStatus obj key =
     (case map_of obj key of
        Some s \<Rightarrow> Some (StatusString s)
      | None \<Rightarrow> if key \<in> set objectPrototypeProperties then Some InheritedMember else None)"

text \<open>
  \<open>createHoursCard(unit, config, hours)\<close>.  The card is kept as the status it shows
  (\<open>this.currentStatus[unit] || 'open'\<close>, where every value that the read finds is truthy),
  its class (\<open>status === 'open' ? 'status-open' : 'status-closed'\<close>) and the sequence of
  \<open>time-slot\<close> fragments appended to \<open>hoursHtml\<close>; the icon and the label of \<open>config\<close> are
  copied into the markup and play no part here.  A day fragment holds
  \<open>day.substring(0, 3)\<close>, \<open>dayHours.open\<close> and \<open>dayHours.close\<close>; the emergency fragment
  holds \<open>hours.emergency\<close>.
\<close>

datatype time_slot = DaySlot string string string | EmergencySlot string

record hours_card =
  status :: property_value
  statusClass :: string
  hoursHtml :: "time_slot list"

definition weekDays :: "string list" where
  "weekDays = [''Monday'', ''Tuesday'', ''Wednesday'', ''Thursday'', ''Friday'', ''Saturday'', ''Sunday'']"

text \<open>The callback of \<open>days.forEach\<close>, as a transformer of \<open>hoursHtml\<close>.\<close>

definition dayCallback :: "unit_schedule \<Rightarrow> string \<Rightarrow> time_slot list \<Rightarrow> time_slot list" where
  "dayCallback hours day html =
     (case map_of (days hours) day of
        None \<Rightarrow> html
      | Some w \<Rightarrow>
          (case open w of
             None \<Rightarrow> html
           | Some opn \<Rightarrow>
               (case close w of
                  None \<Rightarrow> html
                | Some cls \<Rightarrow>
                    if opn \<noteq> [] \<and> cls \<noteq> [] then html @ [DaySlot (take 3 day) opn cls]
                    else html)))"

definition createHoursCard :: "contact_manager \<Rightarrow> string \<Rightarrow> unit_schedule \<Rightarrow> hours_card" where
  "createHoursCard this unit hours =
     (let st = (case getStatus (currentStatus this) unit of None \<Rightarrow> StatusString Open | Some v \<Rightarrow> v);
          cls = (if st = StatusString Open then ''status-open'' else ''status-closed'');
          html1 = fold (dayCallback hours) weekDays [];
          html2 = (case emergency hours of
                     None \<Rightarrow> html1
                   | Some e \<Rightarrow> if e \<noteq> [] then html1 @ [EmergencySlot e] else html1)
      in \<lparr>status = st, statusClass = cls, hoursHtml = html2\<rparr>)"

subsection \<open>The time of day of the specification\<close>

text \<open>
  The specification reads a time of day \<open>"HH:MM"\<close> (24-hour, zero-padded) as the minutes
  since midnight, in \<open>[0, 1439]\<close>; a string of another form, an hour above 23 or a minute
  above 59 is malformed.  This definition follows the specification, not the code.
\<close>

definition decimalDigit :: "char \<Rightarrow> nat option" where
  "decimalDigit c = (if 48 \<le> (of_char c :: nat) \<and> (of_char c :: nat) \<le> 57 then Some (of_char c - 48) else None)"

fun spec_minutesSinceMidnight :: "string \<Rightarrow> nat option" where
  "spec_minutesSinceMidnight [h1, h2, c, m1, m2] =
     (case decimalDigit h1 of None \<Rightarrow> None | Some a \<Rightarrow>
     (case decimalDigit h2 of None \<Rightarrow> None | Some b \<Rightarrow>
     (case decimalDigit m1 of None \<Rightarrow> None | Some d \<Rightarrow>
     (case decimalDigit m2 of None \<Rightarrow> None | Some e \<Rightarrow>
        if c = CHR '':'' \<and> 10 * a + b \<le> 23 \<and> 10 * d + e \<le> 59
        then Some (60 * (10 * a + b) + (10 * d + e)) else None))))"
| "spec_minutesSinceMidnight _ = None"

section \<open>Auxiliary facts\<close>

subsection \<open>Well-formed times of day\<close>

lemma decimalDigit_facts:
  assumes "decimalDigit c = Some x"
  shows "x < 10" and "digitVal c = Some x" and "\<not> isWhiteSpace c"
    and "c \<noteq> CHR ''-''" and "c \<noteq> CHR ''+''" and "c \<noteq> CHR ''x''" and "c \<noteq> CHR ''X''"
    and "c \<noteq> CHR '':''"
  using assms
  by (auto simp: decimalDigit_def digitVal_def isWhiteSpace_def split: if_splits)

lemma split_two_pieces:
  assumes "h1 \<noteq> c" "h2 \<noteq> c" "m1 \<noteq> c" "m2 \<noteq> c"
  shows "split c [h1, h2, c, m1, m2] = [[h1, h2], [m1, m2]]"
  using assms by (simp add: split.simps)

lemma parseInt_two_digits:
  assumes "decimalDigit a = Some x" and "decimalDigit b = Some y"
  shows "parseInt [a, b] = Some (int (10 * x + y))"
  using decimalDigit_facts[OF assms(1)] decimalDigit_facts[OF assms(2)]
  by (simp add: parseInt_def isDigit_def digitsValue_def NaN_def)

lemma spec_minutesSinceMidnight_SomeD:
  assumes "spec_minutesSinceMidnight s = Some m"
  obtains h1 h2 m1 m2 a b d e where "s = [h1, h2, CHR '':'', m1, m2]"
    and "decimalDigit h1 = Some a" and "decimalDigit h2 = Some b"
    and "decimalDigit m1 = Some d" and "decimalDigit m2 = Some e"
    and "10 * a + b \<le> 23" and "10 * d + e \<le> 59"
    and "m = 60 * (10 * a + b) + (10 * d + e)"
  using assms
  by (auto elim!: spec_minutesSinceMidnight.elims split: option.splits if_splits)

lemma timeStringToNumber_wellformed:
  assumes "spec_minutesSinceMidnight s = Some m"
  shows "timeStringToNumber (Some s) = Some (int (100 * (m div 60) + m mod 60))"
proof -
  from assms obtain h1 h2 m1 m2 a b d e where s: "s = [h1, h2, CHR '':'', m1, m2]"
    and dig: "decimalDigit h1 = Some a" "decimalDigit h2 = Some b"
      "decimalDigit m1 = Some d" "decimalDigit m2 = Some e"
    and rng: "10 * a + b \<le> 23" "10 * d + e \<le> 59"
    and m: "m = 60 * (10 * a + b) + (10 * d + e)"
    by (rule spec_minutesSinceMidnight_SomeD)
  have pieces: "split CHR '':'' [h1, h2, CHR '':'', m1, m2] = [[h1, h2], [m1, m2]]"
    using dig by (intro split_two_pieces decimalDigit_facts(8))
  have hh: "parseInt [h1, h2] = Some (int (10 * a + b))"
    and mm: "parseInt [m1, m2] = Some (int (10 * d + e))"
    using dig by (simp_all only: parseInt_two_digits)
  define q r where "q = 10 * a + b" and "r = 10 * d + e"
  have "r < 60" and "m = q * 60 + r"
    using rng by (simp_all add: m q_def r_def)
  then have "m div 60 = q" and "m mod 60 = r"
    by simp_all
  then have "m div 60 = 10 * a + b" and "m mod 60 = 10 * d + e"
    by (simp_all add: q_def r_def)
  then show ?thesis
    by (simp add: timeStringToNumber_def pieces hh mm js_add_def js_mul_def s)
qed

lemma spec_minutesSinceMidnight_bound:
  "spec_minutesSinceMidnight s = Some m \<Longrightarrow> m < 1440"
  by (erule spec_minutesSinceMidnight_SomeD) simp

lemma spec_minutesSinceMidnight_truthy:
  "spec_minutesSinceMidnight s = Some m \<Longrightarrow> truthy (Some s)"
  by (erule spec_minutesSinceMidnight_SomeD) (simp add: truthy_def)

lemma hhmm_order:
  fixes q r q' r' :: nat
  assumes "r < 60" and "r' < 60"
  shows "100 * q + r \<le> 100 * q' + r' \<longleftrightarrow> 60 * q + r \<le> 60 * q' + r'"
proof (cases "q < q'")
  case True
  then have "Suc q \<le> q'" by simp
  then have "100 * Suc q \<le> 100 * q'" and "60 * Suc q \<le> 60 * q'"
    by (simp_all only: mult_le_mono2)
  with assms show ?thesis by simp
next
  case False
  show ?thesis
  proof (cases "q = q'")
    case True
    then show ?thesis by simp
  next
    case False
    with \<open>\<not> q < q'\<close> have "Suc q' \<le> q" by simp
    then have "100 * Suc q' \<le> 100 * q" and "60 * Suc q' \<le> 60 * q"
      by (simp_all only: mult_le_mono2)
    with assms show ?thesis by simp
  qed
qed

lemma hhmm_le_iff:
  fixes m n :: nat
  shows "100 * (m div 60) + m mod 60 \<le> 100 * (n div 60) + n mod 60 \<longleftrightarrow> m \<le> n"
proof -
  have "100 * (m div 60) + m mod 60 \<le> 100 * (n div 60) + n mod 60
    \<longleftrightarrow> 60 * (m div 60) + m mod 60 \<le> 60 * (n div 60) + n mod 60"
    by (rule hhmm_order) simp_all
  then show ?thesis by simp
qed

lemma hhmm_less_iff:
  fixes m n :: nat
  shows "100 * (m div 60) + m mod 60 < 100 * (n div 60) + n mod 60 \<longleftrightarrow> m < n"
  using hhmm_le_iff [of n m] by linarith

subsection \<open>The loop over the units\<close>

lemma statusCallback_other:
  "u \<noteq> fst e \<Longrightarrow> map_of (statusCallback d t e cs) u = map_of cs u"
  by (cases e) (simp add: statusCallback_def update_conv' split: option.splits)

lemma fold_statusCallback_absent:
  "u \<notin> fst ` set es \<Longrightarrow> map_of (fold (statusCallback d t) es cs) u = map_of cs u"
  by (induction es arbitrary: cs) (simp_all add: statusCallback_other)

lemma statusCallback_written:
  assumes "dayHours d hours = Some w" and "truthy (open w)" and "truthy (close w)"
  shows "statusCallback d t (u, hours) cs = AList.update u (if isOpen t w then Open else Closed) cs"
  using assms by (simp add: statusCallback_def)

lemma statusCallback_skipped:
  assumes "case dayHours d hours of None \<Rightarrow> True | Some w \<Rightarrow> \<not> (truthy (open w) \<and> truthy (close w))"
  shows "statusCallback d t (u, hours) cs = cs"
  using assms by (auto simp: statusCallback_def split: option.splits)

lemma fold_statusCallback_written:
  assumes "distinct (map fst es)" and "map_of es u = Some hours"
    and "dayHours d hours = Some w" and "truthy (open w)" and "truthy (close w)"
  shows "map_of (fold (statusCallback d t) es cs) u = Some (if isOpen t w then Open else Closed)"
  using assms(1,2)
proof (induction es arbitrary: cs)
  case Nil
  then show ?case by simp
next
  case (Cons e es)
  show ?case
  proof (cases "fst e = u")
    case True
    with Cons.prems have e: "e = (u, hours)" and "u \<notin> fst ` set es"
      by (cases e; auto)+
    then show ?thesis
      using assms(3-5)
      by (simp add: fold_statusCallback_absent statusCallback_written update_conv')
  next
    case False
    with Cons.prems have "distinct (map fst es)" and "map_of es u = Some hours"
      by (cases e; auto)+
    then show ?thesis by (simp add: Cons.IH)
  qed
qed

lemma fold_statusCallback_skipped:
  assumes "distinct (map fst es)" and "map_of es u = Some hours"
    and "case dayHours d hours of None \<Rightarrow> True | Some w \<Rightarrow> \<not> (truthy (open w) \<and> truthy (close w))"
  shows "map_of (fold (statusCallback d t) es cs) u = map_of cs u"
  using assms(1,2)
proof (induction es arbitrary: cs)
  case Nil
  then show ?case by simp
next
  case (Cons e es)
  show ?case
  proof (cases "fst e = u")
    case True
    with Cons.prems have e: "e = (u, hours)" and "u \<notin> fst ` set es"
      by (cases e; auto)+
    then show ?thesis
      using assms(3)
      by (simp add: fold_statusCallback_absent statusCallback_skipped)
  next
    case False
    with Cons.prems have "distinct (map fst es)" and "map_of es u = Some hours"
      by (cases e; auto)+
    moreover from False have "u \<noteq> fst e" by auto
    ultimately show ?thesis by (simp add: Cons.IH statusCallback_other)
  qed
qed

lemma statusCallback_keys:
  "map fst (statusCallback d t (u, hours) cs) =
     (if (case dayHours d hours of None \<Rightarrow> False | Some w \<Rightarrow> truthy (open w) \<and> truthy (close w))
         \<and> u \<notin> set (map fst cs)
      then map fst cs @ [u] else map fst cs)"
  by (auto simp: statusCallback_def update_keys split: option.splits)

lemma fold_statusCallback_keys:
  assumes "distinct (map fst es)" and "fst ` set es \<inter> fst ` set cs = {}"
  shows "map fst (fold (statusCallback d t) es cs) =
     map fst cs @ map fst (filter (\<lambda>e. case dayHours d (snd e) of None \<Rightarrow> False
                                          | Some w \<Rightarrow> truthy (open w) \<and> truthy (close w)) es)"
  using assms
proof (induction es arbitrary: cs)
  case Nil
  then show ?case by simp
next
  case (Cons e es)
  obtain u hours where e: "e = (u, hours)" by (cases e)
  let ?cs = "statusCallback d t e cs"
  have keys: "fst ` set ?cs \<subseteq> insert u (fst ` set cs)"
    by (auto simp: e statusCallback_def dom_update split: option.splits)
  from Cons.prems have "distinct (map fst es)" and "u \<notin> fst ` set es" and "u \<notin> fst ` set cs"
    and "fst ` set es \<inter> fst ` set cs = {}"
    by (auto simp: e)
  with keys have "fst ` set es \<inter> fst ` set ?cs = {}" by blast
  with \<open>distinct (map fst es)\<close>
  have "map fst (fold (statusCallback d t) es ?cs) =
     map fst ?cs @ map fst (filter (\<lambda>e. case dayHours d (snd e) of None \<Rightarrow> False
                                          | Some w \<Rightarrow> truthy (open w) \<and> truthy (close w)) es)"
    by (rule Cons.IH)
  then show ?case
    using \<open>u \<notin> fst ` set cs\<close> by (simp add: e statusCallback_keys)
qed

lemma fold_statusCallback_fixed:
  assumes "\<forall>(u, hours) \<in> set es. \<forall>w. dayHours d hours = Some w \<longrightarrow> truthy (open w) \<longrightarrow> truthy (close w)
             \<longrightarrow> map_of cs u = Some (if isOpen t w then Open else Closed)"
  shows "fold (statusCallback d t) es cs = cs"
  using assms
proof (induction es)
  case Nil
  then show ?case by simp
next
  case (Cons e es)
  obtain u hours where e: "e = (u, hours)" by (cases e)
  have "statusCallback d t e cs = cs"
  proof (cases "case dayHours d hours of None \<Rightarrow> True | Some w \<Rightarrow> \<not> (truthy (open w) \<and> truthy (close w))")
    case True
    then show ?thesis by (simp add: e statusCallback_skipped)
  next
    case False
    then obtain w where w: "dayHours d hours = Some w" "truthy (open w)" "truthy (close w)"
      by (auto split: option.splits)
    with Cons.prems have "map_of cs u = Some (if isOpen t w then Open else Closed)"
      by (auto simp: e)
    then show ?thesis
      using w by (simp add: e statusCallback_written update_triv)
  qed
  with Cons show ?case by simp
qed

lemma fold_statusCallback_idem:
  assumes "distinct (map fst es)"
  shows "fold (statusCallback d t) es (fold (statusCallback d t) es cs) = fold (statusCallback d t) es cs"
proof (rule fold_statusCallback_fixed, clarify)
  fix u hours w
  assume "(u, hours) \<in> set es" and w: "dayHours d hours = Some w" "truthy (open w)" "truthy (close w)"
  with assms have "map_of es u = Some hours" by simp
  with assms show "map_of (fold (statusCallback d t) es cs) u = Some (if isOpen t w then Open else Closed)"
    using w by (rule fold_statusCallback_written)
qed

subsection \<open>The comparison of the code on well-formed times\<close>

lemma isOpen_wellformed:
  assumes "spec_minutesSinceMidnight opn = Some om" and "spec_minutesSinceMidnight cls = Some cm"
    and "open w = Some opn" and "close w = Some cls" and "m < 60"
  shows "isOpen (Some (int (h * 100 + m))) w \<longleftrightarrow> om \<le> 60 * h + m \<and> 60 * h + m < cm"
proof -
  have o: "timeStringToNumber (open w) = Some (int (100 * (om div 60) + om mod 60))"
    and c: "timeStringToNumber (close w) = Some (int (100 * (cm div 60) + cm mod 60))"
    using assms(1-4) by (simp_all add: timeStringToNumber_wellformed)
  have now: "h * 100 + m = 100 * ((60 * h + m) div 60) + (60 * h + m) mod 60"
    using \<open>m < 60\<close> by simp
  have "isOpen (Some (int (h * 100 + m))) w \<longleftrightarrow>
      100 * (om div 60) + om mod 60 \<le> h * 100 + m \<and> h * 100 + m < 100 * (cm div 60) + cm mod 60"
    unfolding isOpen_def o c by (simp add: js_ge_def js_lt_def del: of_nat_add of_nat_mult)
  also have "\<dots> \<longleftrightarrow> om \<le> 60 * h + m \<and> 60 * h + m < cm"
    unfolding now by (simp only: hhmm_le_iff hhmm_less_iff)
  finally show ?thesis .
qed

lemma isOpen_inverted:
  assumes "spec_minutesSinceMidnight opn = Some om" and "spec_minutesSinceMidnight cls = Some cm"
    and "open w = Some opn" and "close w = Some cls" and "cm \<le> om"
  shows "\<not> isOpen t w"
proof
  assume a: "isOpen t w"
  have o: "timeStringToNumber (open w) = Some (int (100 * (om div 60) + om mod 60))"
    and c: "timeStringToNumber (close w) = Some (int (100 * (cm div 60) + cm mod 60))"
    using assms(1-4) by (simp_all add: timeStringToNumber_wellformed)
  from a have "int (100 * (om div 60) + om mod 60) < int (100 * (cm div 60) + cm mod 60)"
    unfolding isOpen_def o c by (auto simp: js_ge_def js_lt_def split: option.splits)
  then have "100 * (om div 60) + om mod 60 < 100 * (cm div 60) + cm mod 60"
    by (simp only: of_nat_less_iff)
  then have "om < cm" by (simp only: hhmm_less_iff)
  with \<open>cm \<le> om\<close> show False by simp
qed

lemma checkCurrentStatus_Some:
  "hoursData this = Some es \<Longrightarrow>
   currentStatus (checkCurrentStatus this now) =
     fold (statusCallback (weekdayName (dayOfWeek now)) (Some (int (getHours now * 100 + getMinutes now))))
       es (currentStatus this)"
  by (simp add: checkCurrentStatus_def)

subsection \<open>The lines of a card\<close>

text \<open>The callback of \<open>days.forEach\<close> appends to \<open>hoursHtml\<close>, at most one fragment.\<close>

lemma dayCallback_append:
  "dayCallback hours day html = html @ dayCallback hours day []"
  by (simp add: dayCallback_def split: option.splits)

lemma fold_dayCallback_append:
  "fold (dayCallback hours) ds html = html @ concat (map (\<lambda>day. dayCallback hours day []) ds)"
proof (induction ds arbitrary: html)
  case Nil
  then show ?case by simp
next
  case (Cons day ds)
  have "fold (dayCallback hours) (day # ds) html = fold (dayCallback hours) ds (dayCallback hours day html)"
    by simp
  also have "\<dots> = dayCallback hours day html @ concat (map (\<lambda>day. dayCallback hours day []) ds)"
    by (rule Cons.IH)
  also have "dayCallback hours day html = html @ dayCallback hours day []"
    by (rule dayCallback_append)
  finally show ?case by simp
qed

lemma dayCallback_map_of:
  "map_of (days hours) = map_of (days hours') \<Longrightarrow> dayCallback hours day html = dayCallback hours' day html"
  by (simp add: dayCallback_def)

lemma concat_map_filter:
  "concat (map (\<lambda>x. case f x of None \<Rightarrow> [] | Some y \<Rightarrow> [y]) xs) = List.map_filter f xs"
  by (induction xs) (simp_all add: List.map_filter_simps split: option.splits)

lemma createHoursCard_statusClass:
  "statusClass (createHoursCard this unit hours) =
     (case map_of (currentStatus this) unit of
        Some Open \<Rightarrow> ''status-open''
      | Some Closed \<Rightarrow> ''status-closed''
      | None \<Rightarrow> if unit \<in> set objectPrototypeProperties then ''status-closed'' else ''status-open'')"
  by (simp add: createHoursCard_def getStatus_def Let_def split: option.splits unit_status.splits)

section \<open>The claims\<close>

subsection \<open>C1\<close>

text \<open>
  C1.  A unit whose window of today has well-formed times with \<open>open < close\<close> is recorded
  \<open>Open\<close> exactly when \<open>openMinutes \<le> nowMinutes < closeMinutes\<close>: at the open minute it is
  \<open>Open\<close>, at the close minute \<open>Closed\<close>, one minute before the close minute \<open>Open\<close>.  The
  unit key is any key but \<open>__proto__\<close>, under which the assignment stores nothing.
\<close>

theorem half_open_interval_status:
  assumes "hoursData this = Some schedule" and "distinct (map fst schedule)"
    and "map_of schedule unit = Some hours"
    and "dayHours (weekdayName (dayOfWeek now)) hours = Some w"
    and "open w = Some opn" and "close w = Some cls"
    and "spec_minutesSinceMidnight opn = Some openMinutes"
    and "spec_minutesSinceMidnight cls = Some closeMinutes"
    and "openMinutes < closeMinutes"
    and "getHours now < 24" and "getMinutes now < 60"
    and "nowMinutes = 60 * getHours now + getMinutes now"
    and "unit \<noteq> ''__proto__''"
  shows "map_of (currentStatus (checkCurrentStatus this now)) unit =
           Some (if openMinutes \<le> nowMinutes \<and> nowMinutes < closeMinutes then Open else Closed)
    \<and> (nowMinutes = openMinutes \<longrightarrow>
           map_of (currentStatus (checkCurrentStatus this now)) unit = Some Open)
    \<and> (nowMinutes = closeMinutes \<longrightarrow>
           map_of (currentStatus (checkCurrentStatus this now)) unit = Some Closed)
    \<and> (nowMinutes + 1 = closeMinutes \<longrightarrow>
           map_of (currentStatus (checkCurrentStatus this now)) unit = Some Open)"
proof -
  have t: "truthy (open w)" "truthy (close w)"
    using assms(5-8) by (simp_all add: spec_minutesSinceMidnight_truthy)
  have "map_of (currentStatus (checkCurrentStatus this now)) unit =
      Some (if isOpen (Some (int (getHours now * 100 + getMinutes now))) w then Open else Closed)"
    unfolding checkCurrentStatus_Some [OF assms(1)]
    using assms(2,3,4) t by (rule fold_statusCallback_written)
  also have "isOpen (Some (int (getHours now * 100 + getMinutes now))) w \<longleftrightarrow>
      openMinutes \<le> nowMinutes \<and> nowMinutes < closeMinutes"
    unfolding assms(12) using assms(7,8,5,6,11) by (rule isOpen_wellformed)
  finally have main: "map_of (currentStatus (checkCurrentStatus this now)) unit =
      Some (if openMinutes \<le> nowMinutes \<and> nowMinutes < closeMinutes then Open else Closed)" .
  have "nowMinutes = openMinutes \<longrightarrow>
           map_of (currentStatus (checkCurrentStatus this now)) unit = Some Open"
    using main assms(9) by simp
  moreover have "nowMinutes = closeMinutes \<longrightarrow>
           map_of (currentStatus (checkCurrentStatus this now)) unit = Some Closed"
    using main by simp
  moreover have "nowMinutes + 1 = closeMinutes \<longrightarrow>
           map_of (currentStatus (checkCurrentStatus this now)) unit = Some Open"
    using main assms(9) by auto
  ultimately show ?thesis using main by blast
qed

theorem half_open_interval_status_witness:
  "map_of (currentStatus (checkCurrentStatus
      \<lparr>hoursData = Some [(''restaurant'',
          \<lparr>days = [(''Monday'', \<lparr>open = Some ''07:00'', close = Some ''22:00''\<rparr>)], emergency = None\<rparr>)],
       currentStatus = []\<rparr>
      \<lparr>dayOfWeek = Monday, getHours = 21, getMinutes = 59\<rparr>)) ''restaurant'' = Some Open
   \<and> spec_minutesSinceMidnight ''07:00'' = Some 420
   \<and> spec_minutesSinceMidnight ''22:00'' = Some 1320
   \<and> (1319::nat) + 1 = 1320 \<and> ''restaurant'' \<noteq> ''__proto__''"
proof -
  let ?w = "\<lparr>open = Some ''07:00'', close = Some ''22:00''\<rparr>"
  let ?hours = "\<lparr>days = [(''Monday'', ?w)], emergency = None\<rparr>"
  let ?schedule = "[(''restaurant'', ?hours)]"
  let ?mgr = "\<lparr>hoursData = Some ?schedule, currentStatus = []\<rparr>"
  let ?now = "\<lparr>dayOfWeek = Monday, getHours = 21, getMinutes = 59\<rparr>"
  have o: "spec_minutesSinceMidnight ''07:00'' = Some 420"
    and c: "spec_minutesSinceMidnight ''22:00'' = Some 1320"
    by (simp_all add: decimalDigit_def)
  have "dayHours (weekdayName (dayOfWeek ?now)) ?hours = Some ?w"
    by (simp add: dayHours_def js_or_def)
  from half_open_interval_status [of ?mgr ?schedule "''restaurant''" ?hours ?now ?w
      "''07:00''" "''22:00''" 420 1320 1319, OF _ _ _ this _ _ o c]
  have "map_of (currentStatus (checkCurrentStatus ?mgr ?now)) ''restaurant'' =
           Some (if 420 \<le> (1319::nat) \<and> (1319::nat) < 1320 then Open else Closed)"
    by simp
  then show ?thesis using o c by simp
qed

subsection \<open>C2\<close>

text \<open>
  C2 as stated: a unit without day data is treated as \<open>Closed\<close>.  On a Tuesday the
  restaurant (Monday window only, no \<open>default\<close>) gets no status, and its card shows it open;
  the supermarket is evaluated.
\<close>

theorem no_day_data_closed_counterexample:
  "currentStatus (checkCurrentStatus
      (constructor\<lparr>hoursData := Some
         [(''restaurant'', \<lparr>days = [(''Monday'', \<lparr>open = Some ''07:00'', close = Some ''22:00''\<rparr>)],
                            emergency = None\<rparr>),
          (''supermarket'', \<lparr>days = [(''default'', \<lparr>open = Some ''08:00'', close = Some ''20:00''\<rparr>)],
                             emergency = None\<rparr>)]\<rparr>)
      \<lparr>dayOfWeek = Tuesday, getHours = 21, getMinutes = 0\<rparr>) = [(''supermarket'', Closed)]
   \<and> statusClass (createHoursCard
        (checkCurrentStatus
          (constructor\<lparr>hoursData := Some
             [(''restaurant'', \<lparr>days = [(''Monday'', \<lparr>open = Some ''07:00'', close = Some ''22:00''\<rparr>)],
                                emergency = None\<rparr>),
              (''supermarket'', \<lparr>days = [(''default'', \<lparr>open = Some ''08:00'', close = Some ''20:00''\<rparr>)],
                                 emergency = None\<rparr>)]\<rparr>)
          \<lparr>dayOfWeek = Tuesday, getHours = 21, getMinutes = 0\<rparr>)
        ''restaurant''
        \<lparr>days = [(''Monday'', \<lparr>open = Some ''07:00'', close = Some ''22:00''\<rparr>)], emergency = None\<rparr>)
       = ''status-open''"
  by code_simp

text \<open>
  C2, amended.  When \<open>schedule[unit]\<close> has no entry for today's weekday name, the entry
  \<open>default\<close> is used: with well-formed times there, a unit with a key other than
  \<open>__proto__\<close> gets the status of the \<open>default\<close> window.  When \<open>default\<close> is absent too, no
  status is assigned to the unit: its entry of \<open>currentStatus\<close> stays as it was.  A card
  made for the unit then shows that entry; without entry it shows the unit open, except
  under a key that names a property of \<open>Object.prototype\<close> (such as \<open>toString\<close>), where the
  read finds an inherited member and the card shows the unit closed.  The other units of
  the schedule with well-formed times of today, under keys other than \<open>__proto__\<close>, get
  their status as usual.
\<close>

theorem fallback_to_default_else_unassigned:
  assumes "hoursData this = Some schedule" and "distinct (map fst schedule)"
    and "map_of schedule unit = Some hours"
    and "map_of (days hours) (weekdayName (dayOfWeek now)) = None"
    and "getHours now < 24" and "getMinutes now < 60"
    and "nowMinutes = 60 * getHours now + getMinutes now"
  shows "(\<forall>w opn cls om cm.
            unit \<noteq> ''__proto__''
            \<and> map_of (days hours) ''default'' = Some w \<and> open w = Some opn \<and> close w = Some cls
            \<and> spec_minutesSinceMidnight opn = Some om \<and> spec_minutesSinceMidnight cls = Some cm \<longrightarrow>
            map_of (currentStatus (checkCurrentStatus this now)) unit =
              Some (if om \<le> nowMinutes \<and> nowMinutes < cm then Open else Closed))
       \<and> (map_of (days hours) ''default'' = None \<longrightarrow>
            map_of (currentStatus (checkCurrentStatus this now)) unit = map_of (currentStatus this) unit
            \<and> statusClass (createHoursCard (checkCurrentStatus this now) unit hours) =
                (case map_of (currentStatus this) unit of
                   Some Open \<Rightarrow> ''status-open''
                 | Some Closed \<Rightarrow> ''status-closed''
                 | None \<Rightarrow> if unit \<in> set objectPrototypeProperties then ''status-closed''
                           else ''status-open''))
       \<and> (\<forall>unit' hours' w' opn' cls' om' cm'.
            unit' \<noteq> unit \<and> unit' \<noteq> ''__proto__'' \<and> map_of schedule unit' = Some hours'
            \<and> dayHours (weekdayName (dayOfWeek now)) hours' = Some w'
            \<and> open w' = Some opn' \<and> close w' = Some cls'
            \<and> spec_minutesSinceMidnight opn' = Some om' \<and> spec_minutesSinceMidnight cls' = Some cm' \<longrightarrow>
            map_of (currentStatus (checkCurrentStatus this now)) unit' =
              Some (if om' \<le> nowMinutes \<and> nowMinutes < cm' then Open else Closed))"
proof (intro conjI allI impI)
  fix w opn cls om cm
  assume a: "unit \<noteq> ''__proto__''
            \<and> map_of (days hours) ''default'' = Some w \<and> open w = Some opn \<and> close w = Some cls
            \<and> spec_minutesSinceMidnight opn = Some om \<and> spec_minutesSinceMidnight cls = Some cm"
  then have "dayHours (weekdayName (dayOfWeek now)) hours = Some w"
    using assms(4) by (simp add: dayHours_def js_or_def)
  moreover have "truthy (open w)" "truthy (close w)"
    using a by (simp_all add: spec_minutesSinceMidnight_truthy)
  ultimately have "map_of (currentStatus (checkCurrentStatus this now)) unit =
      Some (if isOpen (Some (int (getHours now * 100 + getMinutes now))) w then Open else Closed)"
    unfolding checkCurrentStatus_Some [OF assms(1)]
    using assms(2,3) by (intro fold_statusCallback_written)
  also have "isOpen (Some (int (getHours now * 100 + getMinutes now))) w \<longleftrightarrow>
      om \<le> nowMinutes \<and> nowMinutes < cm"
    unfolding assms(7) using a assms(6) by (intro isOpen_wellformed) simp_all
  finally show "map_of (currentStatus (checkCurrentStatus this now)) unit =
              Some (if om \<le> nowMinutes \<and> nowMinutes < cm then Open else Closed)" .
next
  assume "map_of (days hours) ''default'' = None"
  with assms(4) have "dayHours (weekdayName (dayOfWeek now)) hours = None"
    by (simp add: dayHours_def js_or_def)
  then have "case dayHours (weekdayName (dayOfWeek now)) hours of
           None \<Rightarrow> True
         | Some w \<Rightarrow> \<not> (truthy (open w) \<and> truthy (close w))"
    by simp
  with assms(2,3) show kept:
    "map_of (currentStatus (checkCurrentStatus this now)) unit = map_of (currentStatus this) unit"
    unfolding checkCurrentStatus_Some [OF assms(1)] by (rule fold_statusCallback_skipped)
  then show "statusClass (createHoursCard (checkCurrentStatus this now) unit hours) =
                (case map_of (currentStatus this) unit of
                   Some Open \<Rightarrow> ''status-open''
                 | Some Closed \<Rightarrow> ''status-closed''
                 | None \<Rightarrow> if unit \<in> set objectPrototypeProperties then ''status-closed''
                           else ''status-open'')"
    by (simp only: createHoursCard_statusClass)
next
  fix unit' hours' w' opn' cls' om' cm'
  assume a: "unit' \<noteq> unit \<and> unit' \<noteq> ''__proto__'' \<and> map_of schedule unit' = Some hours'
            \<and> dayHours (weekdayName (dayOfWeek now)) hours' = Some w'
            \<and> open w' = Some opn' \<and> close w' = Some cls'
            \<and> spec_minutesSinceMidnight opn' = Some om' \<and> spec_minutesSinceMidnight cls' = Some cm'"
  then have u: "map_of schedule unit' = Some hours'"
    and w: "dayHours (weekdayName (dayOfWeek now)) hours' = Some w'"
    by simp_all
  have "truthy (open w')" "truthy (close w')"
    using a by (simp_all add: spec_minutesSinceMidnight_truthy)
  with assms(2) u w have "map_of (currentStatus (checkCurrentStatus this now)) unit' =
      Some (if isOpen (Some (int (getHours now * 100 + getMinutes now))) w' then Open else Closed)"
    unfolding checkCurrentStatus_Some [OF assms(1)]
    by (rule fold_statusCallback_written)
  also have "isOpen (Some (int (getHours now * 100 + getMinutes now))) w' \<longleftrightarrow>
      om' \<le> nowMinutes \<and> nowMinutes < cm'"
    unfolding assms(7) using a assms(6) by (intro isOpen_wellformed) simp_all
  finally show "map_of (currentStatus (checkCurrentStatus this now)) unit' =
              Some (if om' \<le> nowMinutes \<and> nowMinutes < cm' then Open else Closed)" .
qed

theorem fallback_to_default_else_unassigned_witness:
  "map_of (currentStatus (checkCurrentStatus
      \<lparr>hoursData = Some
         [(''restaurant'', \<lparr>days = [(''Monday'', \<lparr>open = Some ''07:00'', close = Some ''22:00''\<rparr>)],
                            emergency = None\<rparr>),
          (''supermarket'', \<lparr>days = [(''default'', \<lparr>open = Some ''08:00'', close = Some ''20:00''\<rparr>)],
                             emergency = None\<rparr>)],
       currentStatus = []\<rparr>
      \<lparr>dayOfWeek = Tuesday, getHours = 19, getMinutes = 59\<rparr>)) ''restaurant'' = None
   \<and> map_of (currentStatus (checkCurrentStatus
      \<lparr>hoursData = Some
         [(''restaurant'', \<lparr>days = [(''Monday'', \<lparr>open = Some ''07:00'', close = Some ''22:00''\<rparr>)],
                            emergency = None\<rparr>),
          (''supermarket'', \<lparr>days = [(''default'', \<lparr>open = Some ''08:00'', close = Some ''20:00''\<rparr>)],
                             emergency = None\<rparr>)],
       currentStatus = []\<rparr>
      \<lparr>dayOfWeek = Tuesday, getHours = 19, getMinutes = 59\<rparr>)) ''supermarket'' = Some Open
   \<and> statusClass (createHoursCard (checkCurrentStatus
      \<lparr>hoursData = Some
         [(''restaurant'', \<lparr>days = [(''Monday'', \<lparr>open = Some ''07:00'', close = Some ''22:00''\<rparr>)],
                            emergency = None\<rparr>),
          (''supermarket'', \<lparr>days = [(''default'', \<lparr>open = Some ''08:00'', close = Some ''20:00''\<rparr>)],
                             emergency = None\<rparr>)],
       currentStatus = []\<rparr>
      \<lparr>dayOfWeek = Tuesday, getHours = 19, getMinutes = 59\<rparr>) ''restaurant''
      \<lparr>days = [(''Monday'', \<lparr>open = Some ''07:00'', close = Some ''22:00''\<rparr>)],
       emergency = None\<rparr>) = ''status-open''"
proof -
  let ?wr = "\<lparr>open = Some ''07:00'', close = Some ''22:00''\<rparr>"
  let ?ws = "\<lparr>open = Some ''08:00'', close = Some ''20:00''\<rparr>"
  let ?restaurant = "\<lparr>days = [(''Monday'', ?wr)], emergency = None\<rparr>"
  let ?supermarket = "\<lparr>days = [(''default'', ?ws)], emergency = None\<rparr>"
  let ?schedule = "[(''restaurant'', ?restaurant), (''supermarket'', ?supermarket)]"
  let ?mgr = "\<lparr>hoursData = Some ?schedule, currentStatus = []\<rparr>"
  let ?now = "\<lparr>dayOfWeek = Tuesday, getHours = 19, getMinutes = 59\<rparr>"
  have o: "spec_minutesSinceMidnight ''08:00'' = Some 480"
    and c: "spec_minutesSinceMidnight ''20:00'' = Some 1200"
    by (simp_all add: decimalDigit_def)
  have h: "hoursData ?mgr = Some ?schedule" "distinct (map fst ?schedule)"
    and r: "map_of ?schedule ''restaurant'' = Some ?restaurant"
      "map_of (days ?restaurant) (weekdayName (dayOfWeek ?now)) = None"
    and m: "getHours ?now < 24" "getMinutes ?now < 60" "1199 = 60 * getHours ?now + getMinutes ?now"
    by simp_all
  note inst = fallback_to_default_else_unassigned [OF h r m]
  have "map_of (days ?restaurant) ''default'' = None" by simp
  with inst [THEN conjunct2, THEN conjunct1]
  have first: "map_of (currentStatus (checkCurrentStatus ?mgr ?now)) ''restaurant'' = None"
    and card: "statusClass (createHoursCard (checkCurrentStatus ?mgr ?now) ''restaurant'' ?restaurant)
      = ''status-open''"
    by (simp_all add: objectPrototypeProperties_def)
  have "''supermarket'' \<noteq> ''restaurant'' \<and> ''supermarket'' \<noteq> ''__proto__''
      \<and> map_of ?schedule ''supermarket'' = Some ?supermarket
      \<and> dayHours (weekdayName (dayOfWeek ?now)) ?supermarket = Some ?ws
      \<and> open ?ws = Some ''08:00'' \<and> close ?ws = Some ''20:00''
      \<and> spec_minutesSinceMidnight ''08:00'' = Some 480 \<and> spec_minutesSinceMidnight ''20:00'' = Some 1200"
    using o c by (simp add: dayHours_def js_or_def)
  from inst [THEN conjunct2, THEN conjunct2, rule_format, OF this]
  have second: "map_of (currentStatus (checkCurrentStatus ?mgr ?now)) ''supermarket'' = Some Open"
    by simp
  have s: "map_of ?schedule ''supermarket'' = Some ?supermarket"
      "map_of (days ?supermarket) (weekdayName (dayOfWeek ?now)) = None"
    by simp_all
  have "''supermarket'' \<noteq> ''__proto__''
      \<and> map_of (days ?supermarket) ''default'' = Some ?ws
      \<and> open ?ws = Some ''08:00'' \<and> close ?ws = Some ''20:00''
      \<and> spec_minutesSinceMidnight ''08:00'' = Some 480 \<and> spec_minutesSinceMidnight ''20:00'' = Some 1200"
    using o c by simp
  from fallback_to_default_else_unassigned [OF h s m, THEN conjunct1, rule_format, OF this]
  have "map_of (currentStatus (checkCurrentStatus ?mgr ?now)) ''supermarket'' = Some Open"
    by simp
  with first second card show ?thesis by (intro conjI)
qed

subsection \<open>C3\<close>

text \<open>
  C3 as stated: a malformed time makes the unit \<open>Closed\<close>.  The close time \<open>25:70\<close> is read
  as the number 2570, and the restaurant is recorded open on Monday at 23:30.
\<close>

theorem malformed_time_closed_counterexample:
  "spec_minutesSinceMidnight ''25:70'' = None
   \<and> currentStatus (checkCurrentStatus
      (constructor\<lparr>hoursData := Some [(''restaurant'',
          \<lparr>days = [(''Monday'', \<lparr>open = Some ''07:00'', close = Some ''25:70''\<rparr>)],
           emergency = None\<rparr>)]\<rparr>)
      \<lparr>dayOfWeek = Monday, getHours = 23, getMinutes = 30\<rparr>) = [(''restaurant'', Open)]"
  by code_simp

text \<open>
  C3, amended.  Take a unit with a key other than \<open>__proto__\<close> whose window of today has
  the strings \<open>open\<close> and \<open>close\<close>, made of ASCII characters, whatever their form.  Nothing
  is thrown, and the strings are not validated.
  \<^item> When \<open>open\<close> or \<open>close\<close> is the empty string, the day is treated as absent: no status is
    assigned and the entry of the unit stays as it was.
  \<^item> When both are non-empty, a status is assigned.  \<open>timeStringToNumber\<close> reads the
    integers before and after the first colon with \<open>parseInt\<close> and forms
    \<open>hours * 100 + minutes\<close> without a check of their ranges or of the padding.  When that
    is \<open>NaN\<close> for one of the two strings (a piece without leading integer, or no colon),
    the unit is \<open>Closed\<close>.  When it is a number for both and the strings have at most 13
    characters, the unit is \<open>Open\<close> exactly when \<open>openTime \<le> currentTime < closeTime\<close>, with
    \<open>currentTime = getHours * 100 + getMinutes\<close>.
  \<^item> Every other unit with a key other than \<open>__proto__\<close> and well-formed times of today is
    \<open>Open\<close> exactly when \<open>openMinutes \<le> nowMinutes < closeMinutes\<close>.
\<close>

theorem malformed_times_compared_unvalidated:
  assumes "hoursData this = Some schedule" and "distinct (map fst schedule)"
    and "map_of schedule unit = Some hours" and "unit \<noteq> ''__proto__''"
    and "dayHours (weekdayName (dayOfWeek now)) hours = Some w"
    and "open w = Some opn" and "close w = Some cls"
    and "\<forall>c \<in> set opn \<union> set cls. (of_char c :: nat) < 128"
    and "getHours now < 24" and "getMinutes now < 60"
    and "nowMinutes = 60 * getHours now + getMinutes now"
    and "currentTime = int (getHours now * 100 + getMinutes now)"
  shows "(opn = [] \<or> cls = [] \<longrightarrow>
            map_of (currentStatus (checkCurrentStatus this now)) unit = map_of (currentStatus this) unit)
       \<and> (opn \<noteq> [] \<and> cls \<noteq> []
            \<and> (timeStringToNumber (Some opn) = NaN \<or> timeStringToNumber (Some cls) = NaN) \<longrightarrow>
            map_of (currentStatus (checkCurrentStatus this now)) unit = Some Closed)
       \<and> (\<forall>openTime closeTime.
            opn \<noteq> [] \<and> cls \<noteq> [] \<and> length opn \<le> 13 \<and> length cls \<le> 13
            \<and> timeStringToNumber (Some opn) = Some openTime
            \<and> timeStringToNumber (Some cls) = Some closeTime \<longrightarrow>
            map_of (currentStatus (checkCurrentStatus this now)) unit =
              Some (if openTime \<le> currentTime \<and> currentTime < closeTime then Open else Closed))
       \<and> (\<forall>unit' hours' w' opn' cls' om' cm'.
            unit' \<noteq> unit \<and> unit' \<noteq> ''__proto__'' \<and> map_of schedule unit' = Some hours'
            \<and> dayHours (weekdayName (dayOfWeek now)) hours' = Some w'
            \<and> open w' = Some opn' \<and> close w' = Some cls'
            \<and> spec_minutesSinceMidnight opn' = Some om' \<and> spec_minutesSinceMidnight cls' = Some cm' \<longrightarrow>
            map_of (currentStatus (checkCurrentStatus this now)) unit' =
              Some (if om' \<le> nowMinutes \<and> nowMinutes < cm' then Open else Closed))"
proof -
  have absent: "opn = [] \<or> cls = [] \<longrightarrow>
            map_of (currentStatus (checkCurrentStatus this now)) unit = map_of (currentStatus this) unit"
  proof
    assume "opn = [] \<or> cls = []"
    then have "case dayHours (weekdayName (dayOfWeek now)) hours of
           None \<Rightarrow> True
         | Some w \<Rightarrow> \<not> (truthy (open w) \<and> truthy (close w))"
      using assms(5,6,7) by (auto simp: truthy_def)
    with assms(2,3)
    show "map_of (currentStatus (checkCurrentStatus this now)) unit = map_of (currentStatus this) unit"
      unfolding checkCurrentStatus_Some [OF assms(1)] by (rule fold_statusCallback_skipped)
  qed
  have main: "opn \<noteq> [] \<and> cls \<noteq> [] \<longrightarrow>
      map_of (currentStatus (checkCurrentStatus this now)) unit =
      Some (if isOpen (Some currentTime) w then Open else Closed)"
  proof
    assume "opn \<noteq> [] \<and> cls \<noteq> []"
    then have t: "truthy (open w)" "truthy (close w)"
      using assms(6,7) by (simp_all add: truthy_def)
    show "map_of (currentStatus (checkCurrentStatus this now)) unit =
      Some (if isOpen (Some currentTime) w then Open else Closed)"
      unfolding checkCurrentStatus_Some [OF assms(1)] assms(12)
      using assms(2,3,5) t by (rule fold_statusCallback_written)
  qed
  have nan: "opn \<noteq> [] \<and> cls \<noteq> []
            \<and> (timeStringToNumber (Some opn) = NaN \<or> timeStringToNumber (Some cls) = NaN) \<longrightarrow>
            map_of (currentStatus (checkCurrentStatus this now)) unit = Some Closed"
  proof
    assume a: "opn \<noteq> [] \<and> cls \<noteq> []
            \<and> (timeStringToNumber (Some opn) = NaN \<or> timeStringToNumber (Some cls) = NaN)"
    then have "\<not> isOpen (Some currentTime) w"
      using assms(6,7) by (auto simp: isOpen_def NaN_def js_ge_def js_lt_def)
    with main a show "map_of (currentStatus (checkCurrentStatus this now)) unit = Some Closed"
      by simp
  qed
  have num: "\<forall>openTime closeTime.
            opn \<noteq> [] \<and> cls \<noteq> [] \<and> length opn \<le> 13 \<and> length cls \<le> 13
            \<and> timeStringToNumber (Some opn) = Some openTime
            \<and> timeStringToNumber (Some cls) = Some closeTime \<longrightarrow>
            map_of (currentStatus (checkCurrentStatus this now)) unit =
              Some (if openTime \<le> currentTime \<and> currentTime < closeTime then Open else Closed)"
    using main assms(6,7)
    by (simp add: isOpen_def js_ge_def js_lt_def)
  have others: "\<forall>unit' hours' w' opn' cls' om' cm'.
            unit' \<noteq> unit \<and> unit' \<noteq> ''__proto__'' \<and> map_of schedule unit' = Some hours'
            \<and> dayHours (weekdayName (dayOfWeek now)) hours' = Some w'
            \<and> open w' = Some opn' \<and> close w' = Some cls'
            \<and> spec_minutesSinceMidnight opn' = Some om' \<and> spec_minutesSinceMidnight cls' = Some cm' \<longrightarrow>
            map_of (currentStatus (checkCurrentStatus this now)) unit' =
              Some (if om' \<le> nowMinutes \<and> nowMinutes < cm' then Open else Closed)"
  proof (intro allI impI)
    fix unit' hours' w' opn' cls' om' cm'
    assume a: "unit' \<noteq> unit \<and> unit' \<noteq> ''__proto__'' \<and> map_of schedule unit' = Some hours'
            \<and> dayHours (weekdayName (dayOfWeek now)) hours' = Some w'
            \<and> open w' = Some opn' \<and> close w' = Some cls'
            \<and> spec_minutesSinceMidnight opn' = Some om' \<and> spec_minutesSinceMidnight cls' = Some cm'"
    then have u: "map_of schedule unit' = Some hours'"
      and w: "dayHours (weekdayName (dayOfWeek now)) hours' = Some w'"
      by simp_all
    have "truthy (open w')" "truthy (close w')"
      using a by (simp_all add: spec_minutesSinceMidnight_truthy)
    with assms(2) u w have "map_of (currentStatus (checkCurrentStatus this now)) unit' =
        Some (if isOpen (Some (int (getHours now * 100 + getMinutes now))) w' then Open else Closed)"
      unfolding checkCurrentStatus_Some [OF assms(1)]
      by (rule fold_statusCallback_written)
    also have "isOpen (Some (int (getHours now * 100 + getMinutes now))) w' \<longleftrightarrow>
        om' \<le> nowMinutes \<and> nowMinutes < cm'"
      unfolding assms(11) using a assms(10) by (intro isOpen_wellformed) simp_all
    finally show "map_of (currentStatus (checkCurrentStatus this now)) unit' =
                Some (if om' \<le> nowMinutes \<and> nowMinutes < cm' then Open else Closed)" .
  qed
  from absent nan num others show ?thesis by (intro conjI)
qed

theorem malformed_times_compared_unvalidated_witness:
  "timeStringToNumber (Some ''7am'') = NaN
   \<and> map_of (currentStatus (checkCurrentStatus
      \<lparr>hoursData = Some
         [(''restaurant'', \<lparr>days = [(''Monday'', \<lparr>open = Some ''7am'', close = Some ''25:70''\<rparr>)],
                            emergency = None\<rparr>),
          (''supermarket'', \<lparr>days = [(''default'', \<lparr>open = Some ''08:00'', close = Some ''20:00''\<rparr>)],
                             emergency = None\<rparr>)],
       currentStatus = []\<rparr>
      \<lparr>dayOfWeek = Monday, getHours = 19, getMinutes = 59\<rparr>)) ''restaurant'' = Some Closed
   \<and> map_of (currentStatus (checkCurrentStatus
      \<lparr>hoursData = Some
         [(''restaurant'', \<lparr>days = [(''Monday'', \<lparr>open = Some ''7am'', close = Some ''25:70''\<rparr>)],
                            emergency = None\<rparr>),
          (''supermarket'', \<lparr>days = [(''default'', \<lparr>open = Some ''08:00'', close = Some ''20:00''\<rparr>)],
                             emergency = None\<rparr>)],
       currentStatus = []\<rparr>
      \<lparr>dayOfWeek = Monday, getHours = 19, getMinutes = 59\<rparr>)) ''supermarket'' = Some Open
   \<and> timeStringToNumber (Some ''7:5'') = Some 705 \<and> timeStringToNumber (Some ''25:70'') = Some 2570
   \<and> map_of (currentStatus (checkCurrentStatus
      \<lparr>hoursData = Some
         [(''restaurant'', \<lparr>days = [(''Monday'', \<lparr>open = Some ''7:5'', close = Some ''25:70''\<rparr>)],
                            emergency = None\<rparr>)],
       currentStatus = []\<rparr>
      \<lparr>dayOfWeek = Monday, getHours = 23, getMinutes = 30\<rparr>)) ''restaurant'' = Some Open
   \<and> map_of (currentStatus (checkCurrentStatus
      \<lparr>hoursData = Some
         [(''restaurant'', \<lparr>days = [(''Monday'', \<lparr>open = Some '''', close = Some ''22:00''\<rparr>)],
                            emergency = None\<rparr>)],
       currentStatus = [(''restaurant'', Open)]\<rparr>
      \<lparr>dayOfWeek = Monday, getHours = 23, getMinutes = 30\<rparr>)) ''restaurant'' = Some Open"
proof -
  let ?wr = "\<lparr>open = Some ''7am'', close = Some ''25:70''\<rparr>"
  let ?ws = "\<lparr>open = Some ''08:00'', close = Some ''20:00''\<rparr>"
  let ?restaurant = "\<lparr>days = [(''Monday'', ?wr)], emergency = None\<rparr>"
  let ?supermarket = "\<lparr>days = [(''default'', ?ws)], emergency = None\<rparr>"
  let ?schedule = "[(''restaurant'', ?restaurant), (''supermarket'', ?supermarket)]"
  let ?mgr = "\<lparr>hoursData = Some ?schedule, currentStatus = []\<rparr>"
  let ?now = "\<lparr>dayOfWeek = Monday, getHours = 19, getMinutes = 59\<rparr>"
  have o: "spec_minutesSinceMidnight ''08:00'' = Some 480"
    and c: "spec_minutesSinceMidnight ''20:00'' = Some 1200"
    by (simp_all add: decimalDigit_def)
  have nan: "timeStringToNumber (Some ''7am'') = NaN"
    by code_simp
  have h: "hoursData ?mgr = Some ?schedule" "distinct (map fst ?schedule)"
      "map_of ?schedule ''restaurant'' = Some ?restaurant" "''restaurant'' \<noteq> ''__proto__''"
      "dayHours (weekdayName (dayOfWeek ?now)) ?restaurant = Some ?wr"
      "open ?wr = Some ''7am''" "close ?wr = Some ''25:70''"
      "\<forall>c \<in> set ''7am'' \<union> set ''25:70''. (of_char c :: nat) < 128"
      "getHours ?now < 24" "getMinutes ?now < 60" "1199 = 60 * getHours ?now + getMinutes ?now"
      "1959 = int (getHours ?now * 100 + getMinutes ?now)"
    by (simp_all add: dayHours_def js_or_def)
  note inst = malformed_times_compared_unvalidated [OF h]
  from inst [THEN conjunct2, THEN conjunct1] nan
  have first: "map_of (currentStatus (checkCurrentStatus ?mgr ?now)) ''restaurant'' = Some Closed"
    by simp
  have "''supermarket'' \<noteq> ''restaurant'' \<and> ''supermarket'' \<noteq> ''__proto__''
      \<and> map_of ?schedule ''supermarket'' = Some ?supermarket
      \<and> dayHours (weekdayName (dayOfWeek ?now)) ?supermarket = Some ?ws
      \<and> open ?ws = Some ''08:00'' \<and> close ?ws = Some ''20:00''
      \<and> spec_minutesSinceMidnight ''08:00'' = Some 480 \<and> spec_minutesSinceMidnight ''20:00'' = Some 1200"
    using o c by (simp add: dayHours_def js_or_def)
  from inst [THEN conjunct2, THEN conjunct2, THEN conjunct2, rule_format, OF this]
  have second: "map_of (currentStatus (checkCurrentStatus ?mgr ?now)) ''supermarket'' = Some Open"
    by simp
  let ?w2 = "\<lparr>open = Some ''7:5'', close = Some ''25:70''\<rparr>"
  let ?hours2 = "\<lparr>days = [(''Monday'', ?w2)], emergency = None\<rparr>"
  let ?schedule2 = "[(''restaurant'', ?hours2)]"
  let ?mgr2 = "\<lparr>hoursData = Some ?schedule2, currentStatus = []\<rparr>"
  let ?now2 = "\<lparr>dayOfWeek = Monday, getHours = 23, getMinutes = 30\<rparr>"
  have n1: "timeStringToNumber (Some ''7:5'') = Some 705"
    and n2: "timeStringToNumber (Some ''25:70'') = Some 2570"
    by code_simp+
  have h2: "hoursData ?mgr2 = Some ?schedule2" "distinct (map fst ?schedule2)"
      "map_of ?schedule2 ''restaurant'' = Some ?hours2" "''restaurant'' \<noteq> ''__proto__''"
      "dayHours (weekdayName (dayOfWeek ?now2)) ?hours2 = Some ?w2"
      "open ?w2 = Some ''7:5''" "close ?w2 = Some ''25:70''"
      "\<forall>c \<in> set ''7:5'' \<union> set ''25:70''. (of_char c :: nat) < 128"
      "getHours ?now2 < 24" "getMinutes ?now2 < 60" "1410 = 60 * getHours ?now2 + getMinutes ?now2"
      "2330 = int (getHours ?now2 * 100 + getMinutes ?now2)"
    by (simp_all add: dayHours_def js_or_def)
  have "''7:5'' \<noteq> [] \<and> ''25:70'' \<noteq> [] \<and> length ''7:5'' \<le> 13 \<and> length ''25:70'' \<le> 13
      \<and> timeStringToNumber (Some ''7:5'') = Some 705
      \<and> timeStringToNumber (Some ''25:70'') = Some 2570"
    using n1 n2 by simp
  from malformed_times_compared_unvalidated [OF h2, THEN conjunct2, THEN conjunct2, THEN conjunct1,
      rule_format, OF this]
  have third: "map_of (currentStatus (checkCurrentStatus ?mgr2 ?now2)) ''restaurant'' = Some Open"
    by simp
  let ?w3 = "\<lparr>open = Some '''', close = Some ''22:00''\<rparr>"
  let ?hours3 = "\<lparr>days = [(''Monday'', ?w3)], emergency = None\<rparr>"
  let ?schedule3 = "[(''restaurant'', ?hours3)]"
  let ?mgr3 = "\<lparr>hoursData = Some ?schedule3, currentStatus = [(''restaurant'', Open)]\<rparr>"
  have h3: "hoursData ?mgr3 = Some ?schedule3" "distinct (map fst ?schedule3)"
      "map_of ?schedule3 ''restaurant'' = Some ?hours3" "''restaurant'' \<noteq> ''__proto__''"
      "dayHours (weekdayName (dayOfWeek ?now2)) ?hours3 = Some ?w3"
      "open ?w3 = Some ''''" "close ?w3 = Some ''22:00''"
      "\<forall>c \<in> set '''' \<union> set ''22:00''. (of_char c :: nat) < 128"
      "getHours ?now2 < 24" "getMinutes ?now2 < 60" "1410 = 60 * getHours ?now2 + getMinutes ?now2"
      "2330 = int (getHours ?now2 * 100 + getMinutes ?now2)"
    by (simp_all add: dayHours_def js_or_def)
  from malformed_times_compared_unvalidated [OF h3, THEN conjunct1]
  have fourth: "map_of (currentStatus (checkCurrentStatus ?mgr3 ?now2)) ''restaurant'' = Some Open"
    by simp
  from nan first second n1 n2 third fourth show ?thesis by (intro conjI)
qed

subsection \<open>C4\<close>

text \<open>
  C4.  A unit whose window of today has well-formed times with
  \<open>openMinutes \<ge> closeMinutes\<close> (the window \<open>open = close\<close> included) is recorded \<open>Closed\<close>,
  whatever the clock reads.  The unit key is any key but \<open>__proto__\<close>, under which the
  assignment stores nothing.
\<close>

theorem inverted_window_closed:
  assumes "hoursData this = Some schedule" and "distinct (map fst schedule)"
    and "map_of schedule unit = Some hours"
    and "dayHours (weekdayName (dayOfWeek now)) hours = Some w"
    and "open w = Some opn" and "close w = Some cls"
    and "spec_minutesSinceMidnight opn = Some openMinutes"
    and "spec_minutesSinceMidnight cls = Some closeMinutes"
    and "closeMinutes \<le> openMinutes"
    and "unit \<noteq> ''__proto__''"
  shows "map_of (currentStatus (checkCurrentStatus this now)) unit = Some Closed"
proof -
  have t: "truthy (open w)" "truthy (close w)"
    using assms(5-8) by (simp_all add: spec_minutesSinceMidnight_truthy)
  have "map_of (currentStatus (checkCurrentStatus this now)) unit =
      Some (if isOpen (Some (int (getHours now * 100 + getMinutes now))) w then Open else Closed)"
    unfolding checkCurrentStatus_Some [OF assms(1)]
    using assms(2,3,4) t by (rule fold_statusCallback_written)
  moreover have "\<not> isOpen (Some (int (getHours now * 100 + getMinutes now))) w"
    using assms(7,8,5,6,9) by (rule isOpen_inverted)
  ultimately show ?thesis by simp
qed

theorem inverted_window_closed_witness:
  "spec_minutesSinceMidnight ''09:00'' = Some 540 \<and> ''car_wash'' \<noteq> ''__proto__''
   \<and> map_of (currentStatus (checkCurrentStatus
      \<lparr>hoursData = Some [(''car_wash'',
          \<lparr>days = [(''Monday'', \<lparr>open = Some ''09:00'', close = Some ''09:00''\<rparr>)], emergency = None\<rparr>)],
       currentStatus = []\<rparr>
      \<lparr>dayOfWeek = Monday, getHours = 9, getMinutes = 0\<rparr>)) ''car_wash'' = Some Closed"
proof -
  let ?w = "\<lparr>open = Some ''09:00'', close = Some ''09:00''\<rparr>"
  let ?hours = "\<lparr>days = [(''Monday'', ?w)], emergency = None\<rparr>"
  let ?schedule = "[(''car_wash'', ?hours)]"
  let ?mgr = "\<lparr>hoursData = Some ?schedule, currentStatus = []\<rparr>"
  let ?now = "\<lparr>dayOfWeek = Monday, getHours = 9, getMinutes = 0\<rparr>"
  have o: "spec_minutesSinceMidnight ''09:00'' = Some 540"
    by (simp add: decimalDigit_def)
  have "dayHours (weekdayName (dayOfWeek ?now)) ?hours = Some ?w"
    by (simp add: dayHours_def js_or_def)
  from inverted_window_closed [of ?mgr ?schedule "''car_wash''" ?hours ?now ?w
      "''09:00''" "''09:00''" 540 540, OF _ _ _ this _ _ o o]
  have "map_of (currentStatus (checkCurrentStatus ?mgr ?now)) ''car_wash'' = Some Closed"
    by simp
  then show ?thesis using o by simp
qed

subsection \<open>C5\<close>

text \<open>
  C5 as stated: one entry per unit of the schedule.  A restaurant with a Monday window
  only, evaluated on a Tuesday by a new manager, gets no entry at all.
\<close>

theorem one_entry_per_unit_counterexample:
  "currentStatus (checkCurrentStatus
      (constructor\<lparr>hoursData := Some [(''restaurant'',
          \<lparr>days = [(''Monday'', \<lparr>open = Some ''07:00'', close = Some ''22:00''\<rparr>)],
           emergency = None\<rparr>)]\<rparr>)
      \<lparr>dayOfWeek = Tuesday, getHours = 12, getMinutes = 0\<rparr>) = []"
  by (simp add: checkCurrentStatus_def constructor_def statusCallback_def dayHours_def js_or_def)

text \<open>
  C5, amended.  For a schedule without the unit key \<open>__proto__\<close> (under which the
  assignment stores nothing): on a new manager (\<open>currentStatus = {}\<close>) the status map has
  exactly one entry for each unit of the schedule whose day data of today (after the
  fallback to \<open>default\<close>) has a truthy \<open>open\<close> and a truthy \<open>close\<close>, in the order of the
  schedule, and no entry under another key; the empty schedule gives the empty map.
\<close>

theorem entries_for_units_with_day_data:
  assumes "distinct (map fst schedule)" and "''__proto__'' \<notin> set (map fst schedule)"
  shows "map fst (currentStatus (checkCurrentStatus (constructor\<lparr>hoursData := Some schedule\<rparr>) now)) =
           map fst (filter (\<lambda>e. case dayHours (weekdayName (dayOfWeek now)) (snd e) of
                                   None \<Rightarrow> False
                                 | Some w \<Rightarrow> truthy (open w) \<and> truthy (close w)) schedule)
       \<and> distinct (map fst (currentStatus (checkCurrentStatus (constructor\<lparr>hoursData := Some schedule\<rparr>) now)))
       \<and> currentStatus (checkCurrentStatus (constructor\<lparr>hoursData := Some []\<rparr>) now) = []"
proof -
  let ?P = "\<lambda>e. case dayHours (weekdayName (dayOfWeek now)) (snd e) of
                   None \<Rightarrow> False
                 | Some w \<Rightarrow> truthy (open w) \<and> truthy (close w)"
  have keys: "map fst (currentStatus (checkCurrentStatus (constructor\<lparr>hoursData := Some schedule\<rparr>) now)) =
           map fst (filter ?P schedule)"
    using fold_statusCallback_keys [OF assms(1), of "[]"]
    by (simp add: checkCurrentStatus_def constructor_def)
  have "distinct (map fst (filter ?P schedule))"
    using assms(1) by (rule distinct_map_filter)
  with keys show ?thesis
    by (simp add: checkCurrentStatus_def constructor_def)
qed

theorem entries_for_units_with_day_data_witness:
  "map fst (currentStatus (checkCurrentStatus
      (constructor\<lparr>hoursData := Some
         [(''restaurant'', \<lparr>days = [(''Monday'', \<lparr>open = Some ''07:00'', close = Some ''22:00''\<rparr>)],
                            emergency = None\<rparr>),
          (''supermarket'', \<lparr>days = [(''default'', \<lparr>open = Some ''08:00'', close = Some ''20:00''\<rparr>)],
                             emergency = None\<rparr>),
          (''car_wash'', \<lparr>days = [(''Tuesday'', \<lparr>open = Some ''09:00'', close = Some ''17:00''\<rparr>)],
                          emergency = None\<rparr>)]\<rparr>)
      \<lparr>dayOfWeek = Tuesday, getHours = 12, getMinutes = 0\<rparr>)) = [''supermarket'', ''car_wash'']"
proof -
  let ?schedule = "[(''restaurant'', \<lparr>days = [(''Monday'', \<lparr>open = Some ''07:00'', close = Some ''22:00''\<rparr>)],
                            emergency = None\<rparr>),
          (''supermarket'', \<lparr>days = [(''default'', \<lparr>open = Some ''08:00'', close = Some ''20:00''\<rparr>)],
                             emergency = None\<rparr>),
          (''car_wash'', \<lparr>days = [(''Tuesday'', \<lparr>open = Some ''09:00'', close = Some ''17:00''\<rparr>)],
                          emergency = None\<rparr>)]"
  have d: "distinct (map fst ?schedule)" and n: "''__proto__'' \<notin> set (map fst ?schedule)"
    by simp_all
  from entries_for_units_with_day_data [OF d n, of "\<lparr>dayOfWeek = Tuesday, getHours = 12, getMinutes = 0\<rparr>",
      THEN conjunct1]
  show ?thesis by (simp add: dayHours_def js_or_def truthy_def)
qed

subsection \<open>C6\<close>

text \<open>
  C6 as stated: the result depends on the schedule and the clock only.  The restaurant has
  a Monday window only.  A manager that has recorded \<open>closed\<close> on Monday at 23:00 still has
  that entry after the evaluation of Tuesday 12:00, while a new manager has no entry after
  the same evaluation.
\<close>

theorem same_inputs_same_status_counterexample:
  "currentStatus (checkCurrentStatus
      (checkCurrentStatus
        (constructor\<lparr>hoursData := Some [(''restaurant'',
            \<lparr>days = [(''Monday'', \<lparr>open = Some ''07:00'', close = Some ''22:00''\<rparr>)],
             emergency = None\<rparr>)]\<rparr>)
        \<lparr>dayOfWeek = Monday, getHours = 23, getMinutes = 0\<rparr>)
      \<lparr>dayOfWeek = Tuesday, getHours = 12, getMinutes = 0\<rparr>) = [(''restaurant'', Closed)]
   \<and> currentStatus (checkCurrentStatus
        (constructor\<lparr>hoursData := Some [(''restaurant'',
            \<lparr>days = [(''Monday'', \<lparr>open = Some ''07:00'', close = Some ''22:00''\<rparr>)],
             emergency = None\<rparr>)]\<rparr>)
      \<lparr>dayOfWeek = Tuesday, getHours = 12, getMinutes = 0\<rparr>) = []"
  by code_simp

text \<open>
  C6, amended.  \<open>checkCurrentStatus\<close> updates \<open>currentStatus\<close> in place, as a function of the
  schedule, the clock and the previous \<open>currentStatus\<close>.  For the same schedule and clock,
  the entry of every unit whose day data has a truthy \<open>open\<close> and \<open>close\<close> is the same
  whatever the previous status was, and a second call right after the first one changes
  nothing.
\<close>

theorem status_determined_where_assigned:
  assumes "hoursData this = Some schedule" and "hoursData this' = Some schedule"
    and "distinct (map fst schedule)"
  shows "(\<forall>unit hours w.
            map_of schedule unit = Some hours
            \<and> dayHours (weekdayName (dayOfWeek now)) hours = Some w
            \<and> truthy (open w) \<and> truthy (close w) \<longrightarrow>
            map_of (currentStatus (checkCurrentStatus this now)) unit =
            map_of (currentStatus (checkCurrentStatus this' now)) unit)
       \<and> checkCurrentStatus (checkCurrentStatus this now) now = checkCurrentStatus this now"
proof (intro conjI allI impI)
  fix unit hours w
  assume a: "map_of schedule unit = Some hours
            \<and> dayHours (weekdayName (dayOfWeek now)) hours = Some w
            \<and> truthy (open w) \<and> truthy (close w)"
  then have u: "map_of schedule unit = Some hours"
    and w: "dayHours (weekdayName (dayOfWeek now)) hours = Some w"
    and t: "truthy (open w)" "truthy (close w)"
    by simp_all
  let ?s = "Some (if isOpen (Some (int (getHours now * 100 + getMinutes now))) w then Open else Closed)"
  have "map_of (currentStatus (checkCurrentStatus this now)) unit = ?s"
    unfolding checkCurrentStatus_Some [OF assms(1)]
    using assms(3) u w t by (rule fold_statusCallback_written)
  moreover have "map_of (currentStatus (checkCurrentStatus this' now)) unit = ?s"
    unfolding checkCurrentStatus_Some [OF assms(2)]
    using assms(3) u w t by (rule fold_statusCallback_written)
  ultimately show "map_of (currentStatus (checkCurrentStatus this now)) unit =
            map_of (currentStatus (checkCurrentStatus this' now)) unit"
    by simp
next
  show "checkCurrentStatus (checkCurrentStatus this now) now = checkCurrentStatus this now"
    using assms(1,3) by (simp add: checkCurrentStatus_def fold_statusCallback_idem)
qed

theorem status_determined_where_assigned_witness:
  "map_of (currentStatus (checkCurrentStatus
      \<lparr>hoursData = Some [(''restaurant'',
          \<lparr>days = [(''Monday'', \<lparr>open = Some ''07:00'', close = Some ''22:00''\<rparr>)], emergency = None\<rparr>)],
       currentStatus = []\<rparr>
      \<lparr>dayOfWeek = Monday, getHours = 12, getMinutes = 0\<rparr>)) ''restaurant''
   = map_of (currentStatus (checkCurrentStatus
      \<lparr>hoursData = Some [(''restaurant'',
          \<lparr>days = [(''Monday'', \<lparr>open = Some ''07:00'', close = Some ''22:00''\<rparr>)], emergency = None\<rparr>)],
       currentStatus = [(''restaurant'', Closed)]\<rparr>
      \<lparr>dayOfWeek = Monday, getHours = 12, getMinutes = 0\<rparr>)) ''restaurant''
   \<and> checkCurrentStatus (checkCurrentStatus
      \<lparr>hoursData = Some [(''restaurant'',
          \<lparr>days = [(''Monday'', \<lparr>open = Some ''07:00'', close = Some ''22:00''\<rparr>)], emergency = None\<rparr>)],
       currentStatus = []\<rparr>
      \<lparr>dayOfWeek = Monday, getHours = 12, getMinutes = 0\<rparr>)
      \<lparr>dayOfWeek = Monday, getHours = 12, getMinutes = 0\<rparr>
   = checkCurrentStatus
      \<lparr>hoursData = Some [(''restaurant'',
          \<lparr>days = [(''Monday'', \<lparr>open = Some ''07:00'', close = Some ''22:00''\<rparr>)], emergency = None\<rparr>)],
       currentStatus = []\<rparr>
      \<lparr>dayOfWeek = Monday, getHours = 12, getMinutes = 0\<rparr>"
proof -
  let ?w = "\<lparr>open = Some ''07:00'', close = Some ''22:00''\<rparr>"
  let ?hours = "\<lparr>days = [(''Monday'', ?w)], emergency = None\<rparr>"
  let ?schedule = "[(''restaurant'', ?hours)]"
  let ?now = "\<lparr>dayOfWeek = Monday, getHours = 12, getMinutes = 0\<rparr>"
  have h: "map_of ?schedule ''restaurant'' = Some ?hours
            \<and> dayHours (weekdayName (dayOfWeek ?now)) ?hours = Some ?w
            \<and> truthy (open ?w) \<and> truthy (close ?w)"
    by (simp add: dayHours_def js_or_def truthy_def)
  have "hoursData \<lparr>hoursData = Some ?schedule, currentStatus = []\<rparr> = Some ?schedule"
    and "hoursData \<lparr>hoursData = Some ?schedule, currentStatus = [(''restaurant'', Closed)]\<rparr> = Some ?schedule"
    and "distinct (map fst ?schedule)"
    by simp_all
  note inst = status_determined_where_assigned [OF this, of ?now]
  from inst [THEN conjunct1, rule_format, OF h] inst [THEN conjunct2]
  show ?thesis by (intro conjI)
qed

subsection \<open>C7\<close>

text \<open>
  C7 as stated: a unit that has an emergency string gets one emergency line.  The empty
  string is an emergency string, and the card of this unit has its Monday line only.
\<close>

theorem empty_emergency_string_counterexample:
  "emergency \<lparr>days = [(''Monday'', \<lparr>open = Some ''08:00'', close = Some ''18:00''\<rparr>)],
              emergency = Some ''''\<rparr> = Some ''''
   \<and> hoursHtml (createHoursCard constructor ''service_bay''
        \<lparr>days = [(''Monday'', \<lparr>open = Some ''08:00'', close = Some ''18:00''\<rparr>)],
         emergency = Some ''''\<rparr>)
     = [DaySlot ''Mon'' ''08:00'' ''18:00'']"
  by code_simp

text \<open>
  C7, amended.  The fragments of a card are the day lines in the calendar order Monday to
  Sunday, one for each day whose entry has a non-empty \<open>open\<close> and a non-empty \<open>close\<close> and
  none for another day, followed by exactly one emergency line when \<open>hours.emergency\<close> is a
  non-empty string, and by none when it is empty or absent.  The order of the keys in
  \<open>hours\<close> plays no part.
\<close>

theorem card_lines_in_calendar_order:
  "hoursHtml (createHoursCard this unit hours) =
     List.map_filter
       (\<lambda>day. case map_of (days hours) day of
                 None \<Rightarrow> None
               | Some w \<Rightarrow>
                   (case open w of
                      None \<Rightarrow> None
                    | Some opn \<Rightarrow>
                        (case close w of
                           None \<Rightarrow> None
                         | Some cls \<Rightarrow>
                             if opn \<noteq> [] \<and> cls \<noteq> [] then Some (DaySlot (take 3 day) opn cls)
                             else None)))
       [''Monday'', ''Tuesday'', ''Wednesday'', ''Thursday'', ''Friday'', ''Saturday'', ''Sunday'']
     @ (case emergency hours of
          None \<Rightarrow> []
        | Some e \<Rightarrow> if e \<noteq> [] then [EmergencySlot e] else [])
   \<and> (\<forall>ds. distinct (map fst ds) \<and> distinct (map fst (days hours)) \<and> set ds = set (days hours) \<longrightarrow>
         hoursHtml (createHoursCard this unit (hours\<lparr>days := ds\<rparr>)) =
         hoursHtml (createHoursCard this unit hours))"
proof (intro conjI allI impI)
  let ?f = "\<lambda>day. case map_of (days hours) day of
                 None \<Rightarrow> None
               | Some w \<Rightarrow>
                   (case open w of
                      None \<Rightarrow> None
                    | Some opn \<Rightarrow>
                        (case close w of
                           None \<Rightarrow> None
                         | Some cls \<Rightarrow>
                             if opn \<noteq> [] \<and> cls \<noteq> [] then Some (DaySlot (take 3 day) opn cls)
                             else None))"
  have "\<And>day. dayCallback hours day [] = (case ?f day of None \<Rightarrow> [] | Some y \<Rightarrow> [y])"
    by (simp add: dayCallback_def split: option.splits)
  then have "fold (dayCallback hours) weekDays [] = List.map_filter ?f weekDays"
    by (simp only: fold_dayCallback_append append_Nil concat_map_filter)
  then show "hoursHtml (createHoursCard this unit hours) = List.map_filter ?f
       [''Monday'', ''Tuesday'', ''Wednesday'', ''Thursday'', ''Friday'', ''Saturday'', ''Sunday'']
     @ (case emergency hours of
          None \<Rightarrow> []
        | Some e \<Rightarrow> if e \<noteq> [] then [EmergencySlot e] else [])"
    by (simp add: createHoursCard_def weekDays_def Let_def split: option.splits)
next
  fix ds
  assume a: "distinct (map fst ds) \<and> distinct (map fst (days hours)) \<and> set ds = set (days hours)"
  then have "map_of ds = map_of (days hours)"
    by (intro map_of_inject_set [THEN iffD2]) simp_all
  then have "\<And>day html. dayCallback (hours\<lparr>days := ds\<rparr>) day html = dayCallback hours day html"
    by (intro dayCallback_map_of) simp
  then have "dayCallback (hours\<lparr>days := ds\<rparr>) = dayCallback hours"
    by (intro ext)
  then show "hoursHtml (createHoursCard this unit (hours\<lparr>days := ds\<rparr>)) =
         hoursHtml (createHoursCard this unit hours)"
    by (simp add: createHoursCard_def Let_def)
qed

theorem card_lines_in_calendar_order_witness:
  "hoursHtml (createHoursCard constructor ''service_bay''
      \<lparr>days = [(''Sunday'', \<lparr>open = Some ''10:00'', close = Some ''16:00''\<rparr>),
               (''Tuesday'', \<lparr>open = Some ''08:00'', close = None\<rparr>),
               (''Monday'', \<lparr>open = Some ''08:00'', close = Some ''18:00''\<rparr>)],
       emergency = Some ''24/7 on-call''\<rparr>)
     = [DaySlot ''Mon'' ''08:00'' ''18:00'', DaySlot ''Sun'' ''10:00'' ''16:00'',
        EmergencySlot ''24/7 on-call'']
   \<and> hoursHtml (createHoursCard constructor ''service_bay''
      \<lparr>days = [(''Monday'', \<lparr>open = Some ''08:00'', close = Some ''18:00''\<rparr>),
               (''Tuesday'', \<lparr>open = Some ''08:00'', close = None\<rparr>),
               (''Sunday'', \<lparr>open = Some ''10:00'', close = Some ''16:00''\<rparr>)],
       emergency = Some ''24/7 on-call''\<rparr>)
     = [DaySlot ''Mon'' ''08:00'' ''18:00'', DaySlot ''Sun'' ''10:00'' ''16:00'',
        EmergencySlot ''24/7 on-call'']"
proof -
  let ?sun = "(''Sunday'', \<lparr>open = Some ''10:00'', close = Some ''16:00''\<rparr>)"
  let ?tue = "(''Tuesday'', \<lparr>open = Some ''08:00'', close = None\<rparr>)"
  let ?mon = "(''Monday'', \<lparr>open = Some ''08:00'', close = Some ''18:00''\<rparr>)"
  let ?hours = "\<lparr>days = [?sun, ?tue, ?mon], emergency = Some ''24/7 on-call''\<rparr>"
  note inst = card_lines_in_calendar_order [of constructor "''service_bay''" ?hours]
  have first: "hoursHtml (createHoursCard constructor ''service_bay'' ?hours)
     = [DaySlot ''Mon'' ''08:00'' ''18:00'', DaySlot ''Sun'' ''10:00'' ''16:00'',
        EmergencySlot ''24/7 on-call'']"
    using inst [THEN conjunct1] by (simp add: List.map_filter_simps)
  have "distinct (map fst [?mon, ?tue, ?sun]) \<and> distinct (map fst (days ?hours))
      \<and> set [?mon, ?tue, ?sun] = set (days ?hours)"
    by auto
  with inst [THEN conjunct2, rule_format, of "[?mon, ?tue, ?sun]"]
  have "hoursHtml (createHoursCard constructor ''service_bay'' (?hours\<lparr>days := [?mon, ?tue, ?sun]\<rparr>))
     = hoursHtml (createHoursCard constructor ''service_bay'' ?hours)"
    by blast
  with first show ?thesis by simp
qed

subsection \<open>C8\<close>

text \<open>
  C8.  A unit whose schedule has a well-formed \<open>default\<close> window and no entry under any of
  the seven weekday names gets the status of the \<open>default\<close> window on every day of the
  week.  The unit key is any key but \<open>__proto__\<close>, under which the assignment stores
  nothing.
\<close>

theorem default_window_every_day:
  assumes "hoursData this = Some schedule" and "distinct (map fst schedule)"
    and "map_of schedule unit = Some hours"
    and "\<forall>d. map_of (days hours) (weekdayName d) = None"
    and "map_of (days hours) ''default'' = Some w"
    and "open w = Some opn" and "close w = Some cls"
    and "spec_minutesSinceMidnight opn = Some openMinutes"
    and "spec_minutesSinceMidnight cls = Some closeMinutes"
    and "getHours now < 24" and "getMinutes now < 60"
    and "nowMinutes = 60 * getHours now + getMinutes now"
    and "unit \<noteq> ''__proto__''"
  shows "\<forall>d. map_of (currentStatus (checkCurrentStatus this (now\<lparr>dayOfWeek := d\<rparr>))) unit =
           Some (if openMinutes \<le> nowMinutes \<and> nowMinutes < closeMinutes then Open else Closed)"
proof
  fix d
  let ?now = "now\<lparr>dayOfWeek := d\<rparr>"
  have dh: "dayHours (weekdayName (dayOfWeek ?now)) hours = Some w"
    using assms(4,5) by (simp add: dayHours_def js_or_def)
  have t: "truthy (open w)" "truthy (close w)"
    using assms(6-9) by (simp_all add: spec_minutesSinceMidnight_truthy)
  have "map_of (currentStatus (checkCurrentStatus this ?now)) unit =
      Some (if isOpen (Some (int (getHours ?now * 100 + getMinutes ?now))) w then Open else Closed)"
    unfolding checkCurrentStatus_Some [OF assms(1)]
    using assms(2,3) dh t by (rule fold_statusCallback_written)
  then have "map_of (currentStatus (checkCurrentStatus this ?now)) unit =
      Some (if isOpen (Some (int (getHours now * 100 + getMinutes now))) w then Open else Closed)"
    by simp
  also have "isOpen (Some (int (getHours now * 100 + getMinutes now))) w \<longleftrightarrow>
      openMinutes \<le> nowMinutes \<and> nowMinutes < closeMinutes"
    unfolding assms(12) using assms(8,9,6,7) assms(11) by (rule isOpen_wellformed)
  finally show "map_of (currentStatus (checkCurrentStatus this ?now)) unit =
      Some (if openMinutes \<le> nowMinutes \<and> nowMinutes < closeMinutes then Open else Closed)" .
qed

theorem default_window_every_day_witness:
  "spec_minutesSinceMidnight ''08:00'' = Some 480 \<and> spec_minutesSinceMidnight ''20:00'' = Some 1200
   \<and> ''supermarket'' \<noteq> ''__proto__''
   \<and> (\<forall>d. map_of (currentStatus (checkCurrentStatus
      \<lparr>hoursData = Some [(''supermarket'',
          \<lparr>days = [(''default'', \<lparr>open = Some ''08:00'', close = Some ''20:00''\<rparr>)], emergency = None\<rparr>)],
       currentStatus = []\<rparr>
      \<lparr>dayOfWeek = d, getHours = 19, getMinutes = 59\<rparr>)) ''supermarket'' = Some Open)"
proof -
  let ?w = "\<lparr>open = Some ''08:00'', close = Some ''20:00''\<rparr>"
  let ?hours = "\<lparr>days = [(''default'', ?w)], emergency = None\<rparr>"
  let ?schedule = "[(''supermarket'', ?hours)]"
  let ?mgr = "\<lparr>hoursData = Some ?schedule, currentStatus = []\<rparr>"
  let ?now = "\<lparr>dayOfWeek = Monday, getHours = 19, getMinutes = 59\<rparr>"
  have o: "spec_minutesSinceMidnight ''08:00'' = Some 480"
    and c: "spec_minutesSinceMidnight ''20:00'' = Some 1200"
    by (simp_all add: decimalDigit_def)
  have none: "\<forall>d. map_of (days ?hours) (weekdayName d) = None"
  proof
    fix d show "map_of (days ?hours) (weekdayName d) = None" by (cases d) simp_all
  qed
  from default_window_every_day [of ?mgr ?schedule "''supermarket''" ?hours ?w
      "''08:00''" "''20:00''" 480 1200 ?now 1199, OF _ _ _ none _ _ _ o c]
  show ?thesis using o c by simp
qed

text \<open>
  The scenario of the specification: Monday 07:00 to 22:00, otherwise 08:00 to 20:00; the
  restaurant is open on Monday at 07:00, closed on Tuesday at 07:30 and open on Tuesday at
  19:59.
\<close>

lemma restaurant_scenario:
  "currentStatus (checkCurrentStatus
      (constructor\<lparr>hoursData := Some [(''restaurant'',
          \<lparr>days = [(''Monday'', \<lparr>open = Some ''07:00'', close = Some ''22:00''\<rparr>),
                   (''default'', \<lparr>open = Some ''08:00'', close = Some ''20:00''\<rparr>)],
           emergency = None\<rparr>)]\<rparr>)
      \<lparr>dayOfWeek = Monday, getHours = 7, getMinutes = 0\<rparr>) = [(''restaurant'', Open)]"
  "currentStatus (checkCurrentStatus
      (constructor\<lparr>hoursData := Some [(''restaurant'',
          \<lparr>days = [(''Monday'', \<lparr>open = Some ''07:00'', close = Some ''22:00''\<rparr>),
                   (''default'', \<lparr>open = Some ''08:00'', close = Some ''20:00''\<rparr>)],
           emergency = None\<rparr>)]\<rparr>)
      \<lparr>dayOfWeek = Tuesday, getHours = 7, getMinutes = 30\<rparr>) = [(''restaurant'', Closed)]"
  "currentStatus (checkCurrentStatus
      (constructor\<lparr>hoursData := Some [(''restaurant'',
          \<lparr>days = [(''Monday'', \<lparr>open = Some ''07:00'', close = Some ''22:00''\<rparr>),
                   (''default'', \<lparr>open = Some ''08:00'', close = Some ''20:00''\<rparr>)],
           emergency = None\<rparr>)]\<rparr>)
      \<lparr>dayOfWeek = Tuesday, getHours = 19, getMinutes = 59\<rparr>) = [(''restaurant'', Open)]"
  by code_simp+

subsection \<open>C9\<close>

text \<open>
  C9.  On well-formed zero-padded times the numbers of \<open>timeStringToNumber\<close> are ordered as
  the minutes since midnight are, and the test
  \<open>currentTime >= openTime && currentTime < closeTime\<close> on the HHMM numbers decides the same
  as the half-open interval on the minutes.
\<close>

theorem hhmm_comparison_refines_minutes:
  assumes "spec_minutesSinceMidnight a = Some ma" and "spec_minutesSinceMidnight b = Some mb"
    and "h < 24" and "m < 60"
  shows "(js_le (timeStringToNumber (Some a)) (timeStringToNumber (Some b)) \<longleftrightarrow> ma \<le> mb)
    \<and> (isOpen (Some (int (h * 100 + m))) \<lparr>open = Some a, close = Some b\<rparr>
          \<longleftrightarrow> ma \<le> 60 * h + m \<and> 60 * h + m < mb)"
proof
  have "js_le (timeStringToNumber (Some a)) (timeStringToNumber (Some b)) \<longleftrightarrow>
      100 * (ma div 60) + ma mod 60 \<le> 100 * (mb div 60) + mb mod 60"
    unfolding timeStringToNumber_wellformed [OF assms(1)] timeStringToNumber_wellformed [OF assms(2)]
    by (simp add: js_le_def del: of_nat_add of_nat_mult)
  then show "js_le (timeStringToNumber (Some a)) (timeStringToNumber (Some b)) \<longleftrightarrow> ma \<le> mb"
    by (simp only: hhmm_le_iff)
  show "isOpen (Some (int (h * 100 + m))) \<lparr>open = Some a, close = Some b\<rparr>
          \<longleftrightarrow> ma \<le> 60 * h + m \<and> 60 * h + m < mb"
    using assms(1,2) _ _ assms(4) by (rule isOpen_wellformed) simp_all
qed

theorem hhmm_comparison_refines_minutes_witness:
  "spec_minutesSinceMidnight ''08:59'' = Some 539 \<and> spec_minutesSinceMidnight ''09:00'' = Some 540
   \<and> js_le (timeStringToNumber (Some ''08:59'')) (timeStringToNumber (Some ''09:00''))
   \<and> \<not> isOpen (Some (int (9 * 100 + 0))) \<lparr>open = Some ''08:59'', close = Some ''09:00''\<rparr>"
proof -
  have a: "spec_minutesSinceMidnight ''08:59'' = Some 539"
    and b: "spec_minutesSinceMidnight ''09:00'' = Some 540"
    by (simp_all add: decimalDigit_def)
  have h: "(9::nat) < 24" and m: "(0::nat) < 60" by simp_all
  from hhmm_comparison_refines_minutes [OF a b h m] show ?thesis
    using a b by simp
qed

subsection \<open>C10\<close>

text \<open>
  C10.  A pass of \<open>checkCurrentStatus\<close> assigns a status only to the units whose day data
  (after the fallback to \<open>default\<close>) has a truthy \<open>open\<close> and a truthy \<open>close\<close>.  For every
  other unit of the schedule the entry of \<open>currentStatus\<close> is the one from before the call.
\<close>

theorem status_kept_without_day_data:
  assumes "hoursData this = Some schedule" and "distinct (map fst schedule)"
    and "map_of schedule unit = Some hours"
    and "case dayHours (weekdayName (dayOfWeek now)) hours of
           None \<Rightarrow> True
         | Some w \<Rightarrow> \<not> (truthy (open w) \<and> truthy (close w))"
  shows "map_of (currentStatus (checkCurrentStatus this now)) unit = map_of (currentStatus this) unit"
  unfolding checkCurrentStatus_Some [OF assms(1)]
  using assms(2,3,4) by (rule fold_statusCallback_skipped)

theorem status_kept_without_day_data_witness:
  "map_of (currentStatus (checkCurrentStatus
      \<lparr>hoursData = Some [(''restaurant'',
          \<lparr>days = [(''Monday'', \<lparr>open = Some ''07:00'', close = None\<rparr>)], emergency = None\<rparr>)],
       currentStatus = [(''restaurant'', Open)]\<rparr>
      \<lparr>dayOfWeek = Monday, getHours = 23, getMinutes = 0\<rparr>)) ''restaurant'' = Some Open"
proof -
  let ?w = "\<lparr>open = Some ''07:00'', close = None\<rparr>"
  let ?hours = "\<lparr>days = [(''Monday'', ?w)], emergency = None\<rparr>"
  let ?schedule = "[(''restaurant'', ?hours)]"
  let ?mgr = "\<lparr>hoursData = Some ?schedule, currentStatus = [(''restaurant'', Open)]\<rparr>"
  let ?now = "\<lparr>dayOfWeek = Monday, getHours = 23, getMinutes = 0\<rparr>"
  have "case dayHours (weekdayName (dayOfWeek ?now)) ?hours of
           None \<Rightarrow> True
         | Some w \<Rightarrow> \<not> (truthy (open w) \<and> truthy (close w))"
    by (simp add: dayHours_def js_or_def truthy_def)
  from status_kept_without_day_data [of ?mgr ?schedule "''restaurant''" ?hours ?now, OF _ _ _ this]
  show ?thesis by simp
qed

end
